theory Spec2Isabelle
  imports Complex_Main "HOL-Library.Log_Nat"
begin

section \<open>The fMRIPrep command-line supervisor (\<^verbatim>\<open>fmriprep/cli/run.py\<close>)\<close>

text \<open>
  The development embeds the two functions of \<^verbatim>\<open>fmriprep/cli/run.py\<close> that carry the
  launch logic: \<^verbatim>\<open>build_workflow\<close>, which runs inside a separate process and fills a
  manager-backed dictionary, and \<^verbatim>\<open>main\<close>, which resolves the FreeSurfer license, spawns the
  worker, reads the dictionary and drives execution and reporting.

  Python exceptions are values of the type \<open>exn\<close>; a function that may raise returns a sum
  with the exception on the left. Everything the two functions do to the outside (environment
  writes, directory creation, configuration updates, calls into the graph builder, the engine
  and the report aggregator) is recorded, in program order, as a list of events. The
  collaborators that live outside this file (participant discovery, the graph builder, the
  engine, the report aggregator, the file system, the clock) are fields of a record \<open>world\<close>.
\<close>

subsection \<open>Exceptions and documents\<close>

text \<open>
  \<open>RuntimeError m\<close> and \<open>KeyError k\<close> are instances of exactly these two classes, as
  \<^verbatim>\<open>run.py\<close> raises them itself. An exception that comes out of a collaborator is
  \<open>OtherError classes m\<close>: the names of its class and of all the classes that class inherits
  from (its method resolution order), and \<^verbatim>\<open>str(e)\<close>.
\<close>

datatype exn =
    RuntimeError string
  | KeyError string
  | OtherError "string list" string

text \<open>\<^verbatim>\<open>str(e)\<close>, the message of an exception (a \<^verbatim>\<open>KeyError\<close> prints its key quoted).\<close>

fun str_exn :: "exn \<Rightarrow> string" where
  "str_exn (RuntimeError m) = m"
| "str_exn (KeyError k) = [CHR 0x27] @ k @ [CHR 0x27]"
| "str_exn (OtherError classes m) = m"

text \<open>\<^verbatim>\<open>except RuntimeError\<close> catches the instances of \<^verbatim>\<open>RuntimeError\<close>: the class itself and
  every class that inherits from it (\<^verbatim>\<open>NotImplementedError\<close> and \<^verbatim>\<open>RecursionError\<close> among the
  built-in ones). \<^verbatim>\<open>KeyError\<close> does not inherit from it.\<close>

fun is_RuntimeError :: "exn \<Rightarrow> bool" where
  "is_RuntimeError (RuntimeError m) = True"
| "is_RuntimeError (KeyError k) = False"
| "is_RuntimeError (OtherError classes m) = (''RuntimeError'' \<in> set classes)"

text \<open>
  The plugin settings are a Python dictionary, either built by \<^verbatim>\<open>build_workflow\<close> or loaded
  from a YAML document; a dictionary is an association list in insertion order. A float is
  the rational number it stands for.
\<close>

datatype yaml =
    YNull
  | YBool bool
  | YInt int
  | YNum rat
  | YStr string
  | YList "yaml list"
  | YDict "(string \<times> yaml) list"

subsection \<open>The float quotient \<^verbatim>\<open>opts.mem_mb / 1024\<close>\<close>

text \<open>
  The true division of two Python integers is the double nearest to the exact quotient, ties
  going to the even significand, and \<^verbatim>\<open>OverflowError\<close> when that double would not be finite.
  For a positive integer \<open>m\<close> of bit length \<open>bitlen m\<close> the quotient \<open>m / 1024\<close> lies in
  \<open>[2 ^ e, 2 ^ (e + 1))\<close> with \<open>e = bitlen m - 11\<close>, which is above the subnormal range, so the
  doubles around it are the multiples of \<open>2 ^ (e - 52)\<close>.
\<close>

definition round_half_even :: "rat \<Rightarrow> int" where
  "round_half_even r =
     (let f = \<lfloor>r\<rfloor>; d = r - of_int f in
      if d < 1 / 2 then f
      else if 1 / 2 < d then f + 1
      else if even f then f else f + 1)"

definition pow2 :: "int \<Rightarrow> rat" where
  "pow2 k = (if 0 \<le> k then 2 ^ nat k else 1 / 2 ^ nat (- k))"

definition double_of_quotient_1024 :: "int \<Rightarrow> rat" where
  "double_of_quotient_1024 m =
     (let ulp = pow2 (bitlen m - 11 - 52) in
      of_int (round_half_even (of_int m / 1024 / ulp)) * ulp)"

definition overflow_error :: exn where
  "overflow_error =
     OtherError [''OverflowError'', ''ArithmeticError'', ''Exception'', ''BaseException'']
       ''integer division result too large for a float''"

text \<open>\<^verbatim>\<open>a / 1024\<close> for a Python integer \<open>a\<close>.\<close>

definition truediv_1024 :: "int \<Rightarrow> exn + rat" where
  "truediv_1024 a =
     (if a = 0 then Inr 0
      else
        let v = double_of_quotient_1024 \<bar>a\<bar> in
        if 2 ^ 1024 \<le> v then Inl overflow_error
        else Inr (if a < 0 then - v else v))"

subsection \<open>Strings and paths\<close>

text \<open>\<^verbatim>\<open>s.startswith(p)\<close> and the substring test \<^verbatim>\<open>p in s\<close>.\<close>

fun startswith :: "string \<Rightarrow> string \<Rightarrow> bool" where
  "startswith s [] = True"
| "startswith [] (p # ps) = False"
| "startswith (c # cs) (p # ps) = (c = p \<and> startswith cs ps)"

fun str_in :: "string \<Rightarrow> string \<Rightarrow> bool" where
  "str_in p [] = (p = [])"
| "str_in p (c # cs) = (startswith (c # cs) p \<or> str_in p cs)"

text \<open>\<^verbatim>\<open>sep.join(xs)\<close>.\<close>

fun str_join :: "string \<Rightarrow> string list \<Rightarrow> string" where
  "str_join sep [] = []"
| "str_join sep [x] = x"
| "str_join sep (x # y # ys) = x @ sep @ str_join sep (y # ys)"

text \<open>
  \<^verbatim>\<open>os.path.join(a, b)\<close> of \<^verbatim>\<open>posixpath\<close>, for two components: an absolute \<open>b\<close> replaces
  \<open>a\<close>; an empty \<open>a\<close>, or one that ends with the separator, takes \<open>b\<close> directly.
\<close>

definition path_join :: "string \<Rightarrow> string \<Rightarrow> string" where
  "path_join a b =
     (if startswith b ''/'' then b
      else if a = [] \<or> last a = CHR ''/'' then a @ b
      else a @ ''/'' @ b)"

subsection \<open>Command-line options\<close>

text \<open>
  The namespace returned by \<^verbatim>\<open>get_parser().parse_args()\<close>, one field per \<^verbatim>\<open>dest\<close>. An option
  whose default is \<^verbatim>\<open>None\<close> is an \<open>option\<close>.
\<close>

record opts =
  bids_dir :: string
  output_dir :: string
  analysis_level :: string
  participant_label :: "string list option"
  task_id :: "string option"
  debug :: bool
  nthreads :: int
  omp_nthreads :: int
  mem_mb :: int
  low_mem :: bool
  use_plugin :: "string option"
  anat_only :: bool
  ignore_aroma_denoising_errors :: bool
  verbose_count :: int
  ignore :: "string list"
  longitudinal :: bool
  t2s_coreg :: bool
  bold2t1w_dof :: int
  output_space :: "string list"
  use_bbr :: "bool option"
  template :: string
  output_grid_reference :: "string option"
  medial_surface_nan :: bool
  use_aroma :: bool
  skull_strip_template :: string
  fmap_bspline :: bool
  fmap_no_demean :: bool
  use_syn_sdc :: bool
  force_syn :: bool
  run_reconall :: bool
  hires :: bool
  fs_license_file :: "string option"
  work_dir :: "string option"
  resource_monitor :: bool
  reports_only :: bool
  run_uuid :: "string option"
  write_graph :: bool
  stop_on_first_crash :: bool


subsection \<open>Data handed between the components\<close>

text \<open>The keyword arguments of \<^verbatim>\<open>init_fmriprep_wf\<close>, the graph builder.\<close>

record wf_args =
  wf_subject_list :: "string list"
  wf_task_id :: "string option"
  wf_run_uuid :: string
  wf_ignore :: "string list"
  wf_debug :: bool
  wf_low_mem :: bool
  wf_anat_only :: bool
  wf_longitudinal :: bool
  wf_t2s_coreg :: bool
  wf_omp_nthreads :: int
  wf_skull_strip_template :: string
  wf_work_dir :: string
  wf_output_dir :: string
  wf_bids_dir :: string
  wf_freesurfer :: bool
  wf_output_spaces :: "string list"
  wf_template :: string
  wf_medial_surface_nan :: bool
  wf_output_grid_ref :: "string option"
  wf_hires :: bool
  wf_use_bbr :: "bool option"
  wf_bold2t1w_dof :: int
  wf_fmap_bspline :: bool
  wf_fmap_demean :: bool
  wf_use_syn :: bool
  wf_force_syn :: bool
  wf_use_aroma :: bool
  wf_ignore_aroma_err :: bool

text \<open>
  The dictionary \<^verbatim>\<open>retval\<close> shared between the worker and \<^verbatim>\<open>main\<close>, one field per key:
  \<open>None\<close> is a key that was never written, so that reading it raises \<^verbatim>\<open>KeyError\<close>. The value
  under \<^verbatim>\<open>'workflow'\<close> can itself be Python's \<^verbatim>\<open>None\<close>.
\<close>

record 'wf retval =
  rv_return_code :: "int option"
  rv_plugin_settings :: "yaml option"
  rv_output_dir :: "string option"
  rv_work_dir :: "string option"
  rv_subject_list :: "string list option"
  rv_run_uuid :: "string option"
  rv_workflow :: "'wf option option"

definition empty_retval :: "'wf retval" where
  "empty_retval =
     \<lparr>rv_return_code = None, rv_plugin_settings = None, rv_output_dir = None,
      rv_work_dir = None, rv_subject_list = None, rv_run_uuid = None, rv_workflow = None\<rparr>"

text \<open>What the two functions do to the outside, in program order. A call is recorded when
  it is made, whether or not it then fails.\<close>

datatype 'wf event =
    is_SetEnviron: SetEnviron string string  \<comment> \<open>\<^verbatim>\<open>os.environ[k] = v\<close>\<close>
  | is_StartProcess: StartProcess  \<comment> \<open>\<^verbatim>\<open>p.start(); p.join()\<close> on the build worker\<close>
  | is_LogWarning: LogWarning string "int list"  \<comment> \<open>\<^verbatim>\<open>logger.warning(fmt, *args)\<close>\<close>
  | is_MakeDirs: MakeDirs string  \<comment> \<open>\<^verbatim>\<open>os.makedirs(d, exist_ok=True)\<close>\<close>
  | is_UpdateConfig: UpdateConfig yaml  \<comment> \<open>\<^verbatim>\<open>ncfg.update_config\<close>\<close>
  | is_EnableResourceMonitor: EnableResourceMonitor
  | is_GenerateReports: GenerateReports "string list" string string string
      \<comment> \<open>\<^verbatim>\<open>generate_reports(subject_list, output_dir, work_dir, run_uuid)\<close>\<close>
  | is_InitWorkflow: InitWorkflow wf_args  \<comment> \<open>\<^verbatim>\<open>init_fmriprep_wf(...)\<close>: graph construction\<close>
  | is_WriteGraph: WriteGraph 'wf  \<comment> \<open>\<^verbatim>\<open>fmriprep_wf.write_graph(...)\<close>\<close>
  | is_GcCollect: GcCollect
  | is_RunWorkflow: RunWorkflow 'wf yaml  \<comment> \<open>\<^verbatim>\<open>fmriprep_wf.run(**plugin_settings)\<close>: graph execution\<close>

text \<open>
  The collaborators and the host. \<open>'wf\<close> is the type of graph handles. A collaborator that
  can raise returns the exception on the left (or \<open>Some\<close> exception when it returns nothing).
  The log calls at level 25 and the logger set-up are left out.
\<close>

record 'wf world =
  environ :: "string \<rightharpoonup> string"  \<comment> \<open>\<^verbatim>\<open>os.environ\<close> at start-up\<close>
  path_exists :: "string \<Rightarrow> bool"  \<comment> \<open>\<^verbatim>\<open>os.path.exists\<close>\<close>
  abspath :: "string \<Rightarrow> string"  \<comment> \<open>\<^verbatim>\<open>os.path.abspath\<close>, which depends on the working directory\<close>
  cpu_count :: int  \<comment> \<open>\<^verbatim>\<open>multiprocessing.cpu_count()\<close>\<close>
  strftime_now :: string  \<comment> \<open>\<^verbatim>\<open>strftime('%Y%m%d-%H%M%S')\<close>\<close>
  uuid4 :: string  \<comment> \<open>\<^verbatim>\<open>str(uuid.uuid4())\<close>\<close>
  collect_participants :: "string \<Rightarrow> string list option \<Rightarrow> exn + string list"
  load_plugin :: "string \<Rightarrow> exn + yaml"  \<comment> \<open>\<^verbatim>\<open>open\<close> the file and \<^verbatim>\<open>yaml.load\<close> it\<close>
  makedirs :: "string \<Rightarrow> exn option"
  generate_reports :: "string list \<Rightarrow> string \<Rightarrow> string \<Rightarrow> string \<Rightarrow> int"
  init_fmriprep_wf :: "wf_args \<Rightarrow> exn + 'wf"
  wf_write_graph :: "'wf \<Rightarrow> exn option"
  wf_run :: "'wf \<Rightarrow> yaml \<Rightarrow> exn option"


text \<open>How a run of \<^verbatim>\<open>main\<close> ends: \<^verbatim>\<open>sys.exit(n)\<close>, or an exception that nothing catches.\<close>

datatype outcome = Exit int | Raised exn

text \<open>The status the operating system sees: the interpreter ends with status 1 on an
  uncaught exception.\<close>

fun exit_status :: "outcome \<Rightarrow> int" where
  "exit_status (Exit n) = n"
| "exit_status (Raised e) = 1"

subsection \<open>Messages\<close>

definition aroma_msg :: "string \<Rightarrow> string list \<Rightarrow> string" where
  "aroma_msg t spaces =
     ''ERROR: --use-aroma requires functional images to be resampled to MNI152NLin2009cAsym.''
     @ [CHR 0x0A, CHR 0x09] @ ''--template must be set to '' @ [CHR 0x22]
     @ ''MNI152NLin2009cAsym'' @ [CHR 0x22] @ '' (was: '' @ [CHR 0x22] @ t @ [CHR 0x22] @ '')''
     @ [CHR 0x0A, CHR 0x09] @ ''--output-space list must include '' @ [CHR 0x22]
     @ ''template'' @ [CHR 0x22] @ '' (was: '' @ [CHR 0x22] @ str_join '' '' spaces
     @ [CHR 0x22] @ '')''"

definition syn_msg :: string where
  "syn_msg =
     ''SyN SDC correction requires T1 to MNI registration, but '' @ [CHR 0x22] @ ''template''
     @ [CHR 0x22] @ '' is not specified in '' @ [CHR 0x22] @ ''--output-space'' @ [CHR 0x22]
     @ '' arguments''"

definition omp_msg :: string where
  "omp_msg =
     ''Per-process threads (--omp-nthreads=%d) exceed total threads (--nthreads/--n_cpus=%d)''"

definition license_msg :: string where
  "license_msg =
     ''ERROR: a valid license file is required for FreeSurfer to run. ''
     @ ''FMRIPREP looked for an existing license file at several paths, in this ''
     @ ''order: 1) command line argument ``--fs-license-file``; 2) ``$FS_LICENSE`` ''
     @ ''environment variable; and 3) the ``$FREESURFER_HOME/license.txt`` path. ''
     @ ''Get it (for free) by registering at https://''
     @ ''surfer.nmr.mgh.harvard.edu/registration.html''"

subsection \<open>\<^verbatim>\<open>build_workflow\<close>\<close>

text \<open>Lines 306--321, the validity of some inputs: the exception raised, or the messages
  to log as warnings.\<close>

definition check_inputs :: "opts \<Rightarrow> exn + string list" where
  "check_inputs opts =
     (if use_aroma opts \<and>
         (template opts \<noteq> ''MNI152NLin2009cAsym'' \<or> ''template'' \<notin> set (output_space opts))
      then Inl (RuntimeError (aroma_msg (template opts) (output_space opts)))
      else if ''template'' \<notin> set (output_space opts) \<and> (use_syn_sdc opts \<or> force_syn opts)
      then (if force_syn opts then Inl (RuntimeError syn_msg) else Inr [syn_msg])
      else Inr [])"

text \<open>Lines 332--334: \<^verbatim>\<open>nthreads = opts.nthreads; if nthreads < 1: nthreads = cpu_count()\<close>.\<close>

definition plan_nthreads :: "int \<Rightarrow> int \<Rightarrow> int" where
  "plan_nthreads cpus n = (if n < 1 then cpus else n)"

text \<open>Lines 336--343: the \<^verbatim>\<open>MultiProc\<close> settings, and the key \<^verbatim>\<open>memory_gb\<close> that line 346 adds to
  them.\<close>

definition multiproc_dict :: "int \<Rightarrow> rat option \<Rightarrow> yaml" where
  "multiproc_dict n memory_gb =
     YDict [(''plugin'', YStr ''MultiProc''),
            (''plugin_args'',
             YDict ([(''n_procs'', YInt n),
                     (''raise_insufficient'', YBool False),
                     (''maxtasksperchild'', YInt 1)]
                    @ (case memory_gb of None \<Rightarrow> [] | Some g \<Rightarrow> [(''memory_gb'', YNum g)])))]"

text \<open>Lines 336--346: \<^verbatim>\<open>memory_gb\<close> is set when \<^verbatim>\<open>opts.mem_mb\<close> is truthy (not zero), and the
  quotient can raise.\<close>

definition multiproc_settings :: "int \<Rightarrow> int \<Rightarrow> exn + yaml" where
  "multiproc_settings n mem =
     (if mem \<noteq> 0 then
        (case truediv_1024 mem of
           Inl e \<Rightarrow> Inl e
         | Inr g \<Rightarrow> Inr (multiproc_dict n (Some g)))
      else Inr (multiproc_dict n None))"

text \<open>Lines 354--356: \<^verbatim>\<open>if omp_nthreads == 0: omp_nthreads = min(nthreads - 1 if nthreads > 1
  else cpu_count(), 8)\<close>.\<close>

definition plan_omp_nthreads :: "int \<Rightarrow> int \<Rightarrow> int \<Rightarrow> int" where
  "plan_omp_nthreads cpus n omp =
     (if omp = 0 then min (if n > 1 then n - 1 else cpus) 8 else omp)"

text \<open>Lines 369--371: the three \<^verbatim>\<open>os.makedirs\<close> calls in order, stopping at the first that
  raises.\<close>

fun makedirs_all :: "'wf world \<Rightarrow> string list \<Rightarrow> exn option \<times> 'wf event list" where
  "makedirs_all w [] = (None, [])"
| "makedirs_all w (d # ds) =
     (case makedirs w d of
        Some e \<Rightarrow> (Some e, [MakeDirs d])
      | None \<Rightarrow> (case makedirs_all w ds of (r, evs) \<Rightarrow> (r, MakeDirs d # evs)))"

text \<open>Lines 374--390: the dictionary given to \<^verbatim>\<open>ncfg.update_config\<close>.\<close>

definition nipype_config :: "opts \<Rightarrow> string \<Rightarrow> yaml" where
  "nipype_config opts log_dir =
     YDict [(''logging'',
             YDict [(''log_directory'', YStr log_dir), (''log_to_file'', YBool True)]),
            (''execution'',
             YDict [(''crashdump_dir'', YStr log_dir),
                    (''crashfile_format'', YStr ''txt''),
                    (''get_linked_libs'', YBool False),
                    (''stop_on_first_crash'',
                     YBool (stop_on_first_crash opts \<or> work_dir opts = None))]),
            (''monitoring'',
             YDict [(''enabled'', YBool (resource_monitor opts)),
                    (''sample_frequency'', YStr ''0.5''),
                    (''summary_append'', YBool True)])]"

text \<open>Lines 419--448: the arguments of the graph builder.\<close>

definition init_args ::
  "opts \<Rightarrow> string list \<Rightarrow> string \<Rightarrow> int \<Rightarrow> string \<Rightarrow> string \<Rightarrow> string \<Rightarrow> wf_args" where
  "init_args opts subject_list uuid omp wd out bids =
     \<lparr>wf_subject_list = subject_list, wf_task_id = task_id opts, wf_run_uuid = uuid,
      wf_ignore = ignore opts, wf_debug = debug opts, wf_low_mem = low_mem opts,
      wf_anat_only = anat_only opts, wf_longitudinal = longitudinal opts,
      wf_t2s_coreg = t2s_coreg opts, wf_omp_nthreads = omp,
      wf_skull_strip_template = skull_strip_template opts, wf_work_dir = wd,
      wf_output_dir = out, wf_bids_dir = bids, wf_freesurfer = run_reconall opts,
      wf_output_spaces = output_space opts, wf_template = template opts,
      wf_medial_surface_nan = medial_surface_nan opts,
      wf_output_grid_ref = output_grid_reference opts, wf_hires = hires opts,
      wf_use_bbr = use_bbr opts, wf_bold2t1w_dof = bold2t1w_dof opts,
      wf_fmap_bspline = fmap_bspline opts, wf_fmap_demean = fmap_no_demean opts,
      wf_use_syn = use_syn_sdc opts, wf_force_syn = force_syn opts,
      wf_use_aroma = use_aroma opts,
      wf_ignore_aroma_err = ignore_aroma_denoising_errors opts\<rparr>"

text \<open>Lines 336--352: the settings are computed first; then \<^verbatim>\<open>--use-plugin\<close> overloads them with
  the loaded document.\<close>

definition resolve_plugin_settings :: "'wf world \<Rightarrow> opts \<Rightarrow> exn + yaml" where
  "resolve_plugin_settings w opts =
     (case multiproc_settings (plan_nthreads (cpu_count w) (nthreads opts)) (mem_mb opts) of
        Inl e \<Rightarrow> Inl e
      | Inr computed \<Rightarrow>
        (case use_plugin opts of
           None \<Rightarrow> Inr computed
         | Some f \<Rightarrow> load_plugin w f))"

text \<open>Lines 364--366: the three directories. A Python \<^verbatim>\<open>x or 'work'\<close> takes \<^verbatim>\<open>'work'\<close> for \<^verbatim>\<open>None\<close>
  and for the empty string.\<close>

definition resolved_output_dir :: "'wf world \<Rightarrow> opts \<Rightarrow> string" where
  "resolved_output_dir w opts = abspath w (output_dir opts)"

definition resolved_log_dir :: "'wf world \<Rightarrow> opts \<Rightarrow> string" where
  "resolved_log_dir w opts = path_join (path_join (resolved_output_dir w opts) ''fmriprep'') ''logs''"

definition resolved_work_dir :: "'wf world \<Rightarrow> opts \<Rightarrow> string" where
  "resolved_work_dir w opts =
     abspath w (case work_dir opts of None \<Rightarrow> ''work'' | Some d \<Rightarrow> if d = [] then ''work'' else d)"

text \<open>Line 324: the run identifier, \<^verbatim>\<open>'%s_%s' % (strftime('%Y%m%d-%H%M%S'), uuid.uuid4())\<close>.\<close>

definition fresh_run_uuid :: "'wf world \<Rightarrow> string" where
  "fresh_run_uuid w = strftime_now w @ ''_'' @ uuid4 w"

text \<open>The two thread counts of the worker (lines 332--334 and 354--356) and the arguments
  it gives the graph builder.\<close>

definition worker_nthreads :: "'wf world \<Rightarrow> opts \<Rightarrow> int" where
  "worker_nthreads w opts = plan_nthreads (cpu_count w) (nthreads opts)"

definition worker_omp_nthreads :: "'wf world \<Rightarrow> opts \<Rightarrow> int" where
  "worker_omp_nthreads w opts =
     plan_omp_nthreads (cpu_count w) (worker_nthreads w opts) (omp_nthreads opts)"

definition worker_args :: "'wf world \<Rightarrow> opts \<Rightarrow> string list \<Rightarrow> wf_args" where
  "worker_args w opts subject_list =
     init_args opts subject_list (fresh_run_uuid w) (worker_omp_nthreads w opts)
       (resolved_work_dir w opts) (resolved_output_dir w opts) (abspath w (bids_dir opts))"

text \<open>Lines 395--401: the seven keys written once the set-up is done.\<close>

definition publish ::
  "'wf world \<Rightarrow> opts \<Rightarrow> string list \<Rightarrow> yaml \<Rightarrow> 'wf retval \<Rightarrow> 'wf retval" where
  "publish w opts subject_list plugin_settings retval =
     retval\<lparr>rv_return_code := Some 0,
            rv_plugin_settings := Some plugin_settings,
            rv_output_dir := Some (resolved_output_dir w opts),
            rv_work_dir := Some (resolved_work_dir w opts),
            rv_subject_list := Some subject_list,
            rv_run_uuid := Some (fresh_run_uuid w),
            rv_workflow := Some None\<rparr>"

text \<open>
  The worker. It returns what it raised (or \<open>Inr ()\<close> when it returned), the dictionary as
  it left it, and its events.
\<close>

definition build_workflow ::
  "'wf world \<Rightarrow> opts \<Rightarrow> 'wf retval \<Rightarrow> (exn + unit) \<times> 'wf retval \<times> 'wf event list" where
  "build_workflow w opts retval =
     (case check_inputs opts of
        Inl e \<Rightarrow> (Inl e, retval, [])
      | Inr msgs \<Rightarrow>
        let ev1 = map (\<lambda>m. LogWarning m []) msgs in
        (case collect_participants w (abspath w (bids_dir opts)) (participant_label opts) of
           Inl e \<Rightarrow> (Inl e, retval, ev1)
         | Inr subject_list \<Rightarrow>
           (case resolve_plugin_settings w opts of
              Inl e \<Rightarrow> (Inl e, retval, ev1)
            | Inr plugin_settings \<Rightarrow>
              let n = worker_nthreads w opts;
                  omp = worker_omp_nthreads w opts;
                  ev2 = ev1 @ (if 1 < n \<and> n < omp then [LogWarning omp_msg [omp, n]] else []);
                  out = resolved_output_dir w opts;
                  log_dir = resolved_log_dir w opts;
                  wd = resolved_work_dir w opts
              in
              (case makedirs_all w [out, log_dir, wd] of
                 (Some e, ev3) \<Rightarrow> (Inl e, retval, ev2 @ ev3)
               | (None, ev3) \<Rightarrow>
                 let ev4 = ev2 @ ev3 @ [UpdateConfig (nipype_config opts log_dir)]
                           @ (if resource_monitor opts then [EnableResourceMonitor] else []);
                     retval1 = publish w opts subject_list plugin_settings retval
                 in
                 if reports_only opts then
                   let uuid = (case run_uuid opts of
                                 Some u \<Rightarrow> u
                               | None \<Rightarrow> fresh_run_uuid w)
                   in
                   (Inr (),
                    retval1\<lparr>rv_return_code :=
                               Some (generate_reports w subject_list out wd uuid)\<rparr>,
                    ev4 @ [GenerateReports subject_list out wd uuid])
                 else
                   let args = worker_args w opts subject_list in
                   (case init_fmriprep_wf w args of
                      Inl e \<Rightarrow> (Inl e, retval1, ev4 @ [InitWorkflow args])
                    | Inr graph \<Rightarrow>
                      (Inr (),
                       retval1\<lparr>rv_workflow := Some (Some graph), rv_return_code := Some 0\<rparr>,
                       ev4 @ [InitWorkflow args]))))))"

subsection \<open>\<^verbatim>\<open>main\<close>\<close>

text \<open>\<^verbatim>\<open>os.getenv(k, d)\<close>.\<close>

definition getenv :: "'wf world \<Rightarrow> string \<Rightarrow> string \<Rightarrow> string" where
  "getenv w k d = (case environ w k of None \<Rightarrow> d | Some v \<Rightarrow> v)"

text \<open>Lines 217--219: \<^verbatim>\<open>opts.fs_license_file or os.getenv('FS_LICENSE', default_license)\<close>. The
  left operand of \<^verbatim>\<open>or\<close> is taken when it is truthy: neither \<^verbatim>\<open>None\<close> nor the empty string.\<close>

definition resolve_license :: "'wf world \<Rightarrow> opts \<Rightarrow> string" where
  "resolve_license w opts =
     (let default_license = path_join (getenv w ''FREESURFER_HOME'' []) ''license.txt'' in
      case fs_license_file opts of
        None \<Rightarrow> getenv w ''FS_LICENSE'' default_license
      | Some p \<Rightarrow> if p \<noteq> [] then p else getenv w ''FS_LICENSE'' default_license)"

text \<open>Lines 264--276: execution and the report phase, once the graph handle is known.\<close>

definition execute ::
  "'wf world \<Rightarrow> 'wf \<Rightarrow> yaml \<Rightarrow> string list \<Rightarrow> string \<Rightarrow> string \<Rightarrow> string
     \<Rightarrow> outcome \<times> 'wf event list" where
  "execute w graph plugin_settings subject_list out wd uuid =
     (let ev = [GcCollect, RunWorkflow graph plugin_settings] in
      case (case wf_run w graph plugin_settings of
              None \<Rightarrow> Inr 0
            | Some e \<Rightarrow>
              if is_RuntimeError e \<and> str_in ''Workflow did not execute cleanly'' (str_exn e)
              then Inr 1 else Inl e) of
        Inl e \<Rightarrow> (Raised e, ev)
      | Inr errno \<Rightarrow>
        let errno' = errno + generate_reports w subject_list out wd uuid in
        (Exit (if errno' > 0 then 1 else 0), ev @ [GenerateReports subject_list out wd uuid]))"

text \<open>
  The entry point. The exception of the worker, if any, stays in the worker's process:
  \<^verbatim>\<open>main\<close> sees only the dictionary. The seven reads of lines 247--253 raise \<^verbatim>\<open>KeyError\<close> on a
  missing key.
\<close>

definition main :: "'wf world \<Rightarrow> opts \<Rightarrow> outcome \<times> 'wf event list" where
  "main w opts =
     (let license_file = resolve_license w opts in
      if \<not> path_exists w license_file then (Raised (RuntimeError license_msg), [])
      else
        (case build_workflow w opts empty_retval of (r, retval, evw) \<Rightarrow>
         let ev1 = [SetEnviron ''FS_LICENSE'' license_file, StartProcess] @ evw in
         (case rv_workflow retval of None \<Rightarrow> (Raised (KeyError ''workflow''), ev1)
          | Some fmriprep_wf \<Rightarrow>
         (case rv_plugin_settings retval of None \<Rightarrow> (Raised (KeyError ''plugin_settings''), ev1)
          | Some plugin_settings \<Rightarrow>
         (case rv_output_dir retval of None \<Rightarrow> (Raised (KeyError ''output_dir''), ev1)
          | Some out \<Rightarrow>
         (case rv_work_dir retval of None \<Rightarrow> (Raised (KeyError ''work_dir''), ev1)
          | Some wd \<Rightarrow>
         (case rv_subject_list retval of None \<Rightarrow> (Raised (KeyError ''subject_list''), ev1)
          | Some subject_list \<Rightarrow>
         (case rv_run_uuid retval of None \<Rightarrow> (Raised (KeyError ''run_uuid''), ev1)
          | Some uuid \<Rightarrow>
         (case rv_return_code retval of None \<Rightarrow> (Raised (KeyError ''return_code''), ev1)
          | Some retcode \<Rightarrow>
         (case fmriprep_wf of
            None \<Rightarrow> (Exit 1, ev1)
          | Some graph \<Rightarrow>
            (case (if write_graph opts then wf_write_graph w graph else None) of
               Some e \<Rightarrow> (Raised e, ev1 @ [WriteGraph graph])
             | None \<Rightarrow>
               let ev2 = ev1 @ (if write_graph opts then [WriteGraph graph] else []) in
               if reports_only opts then (Exit (if retcode > 0 then 1 else 0), ev2)
               else
                 (case execute w graph plugin_settings subject_list out wd uuid of
                    (res, ev3) \<Rightarrow> (res, ev2 @ ev3)))))))))))))"


subsection \<open>Reading the results\<close>

text \<open>\<^verbatim>\<open>d[k]\<close> on a dictionary of the document type; \<open>None\<close> for a missing key or a value that
  is no dictionary.\<close>

fun yaml_get :: "yaml \<Rightarrow> string \<Rightarrow> yaml option" where
  "yaml_get (YDict kvs) k = map_of kvs k"
| "yaml_get y k = None"

text \<open>
  The set-up of the worker succeeds (it gets as far as line 395) when the option checks
  pass with the warnings \<open>warns\<close>, the dataset yields the participants \<open>subject_list\<close>, the
  plugin settings resolve to \<open>plugin_settings\<close> and the three directories can be made.
\<close>

definition worker_setup ::
  "'wf world \<Rightarrow> opts \<Rightarrow> string list \<Rightarrow> string list \<Rightarrow> yaml \<Rightarrow> bool" where
  "worker_setup w opts warns subject_list plugin_settings \<longleftrightarrow>
     check_inputs opts = Inr warns \<and>
     collect_participants w (abspath w (bids_dir opts)) (participant_label opts)
       = Inr subject_list \<and>
     resolve_plugin_settings w opts = Inr plugin_settings \<and>
     makedirs w (resolved_output_dir w opts) = None \<and>
     makedirs w (resolved_log_dir w opts) = None \<and>
     makedirs w (resolved_work_dir w opts) = None"

text \<open>The events of such a set-up, in order: warnings, directories, configuration.\<close>

definition setup_events :: "'wf world \<Rightarrow> opts \<Rightarrow> string list \<Rightarrow> 'wf event list" where
  "setup_events w opts warns =
     map (\<lambda>m. LogWarning m []) warns
     @ (if 1 < worker_nthreads w opts \<and> worker_nthreads w opts < worker_omp_nthreads w opts
        then [LogWarning omp_msg [worker_omp_nthreads w opts, worker_nthreads w opts]] else [])
     @ [MakeDirs (resolved_output_dir w opts), MakeDirs (resolved_log_dir w opts),
        MakeDirs (resolved_work_dir w opts),
        UpdateConfig (nipype_config opts (resolved_log_dir w opts))]
     @ (if resource_monitor opts then [EnableResourceMonitor] else [])"

text \<open>The identifier the worker gives the report aggregator in reports-only mode
  (lines 406--408).\<close>

definition report_uuid :: "'wf world \<Rightarrow> opts \<Rightarrow> string" where
  "report_uuid w opts = (case run_uuid opts of Some u \<Rightarrow> u | None \<Rightarrow> fresh_run_uuid w)"

text \<open>What \<^verbatim>\<open>main\<close> does before it reads the dictionary, and what the worker it spawned
  leaves behind.\<close>

definition supervisor_prefix :: "'wf world \<Rightarrow> opts \<Rightarrow> 'wf event list" where
  "supervisor_prefix w opts = [SetEnviron ''FS_LICENSE'' (resolve_license w opts), StartProcess]"

definition worker_events :: "'wf world \<Rightarrow> opts \<Rightarrow> 'wf event list" where
  "worker_events w opts = snd (snd (build_workflow w opts empty_retval))"

definition worker_retval :: "'wf world \<Rightarrow> opts \<Rightarrow> 'wf retval" where
  "worker_retval w opts = fst (snd (build_workflow w opts empty_retval))"

subsection \<open>The specification's wording, for comparison\<close>

text \<open>The planner as section 4.2 of the specification words it: \<open>total = T if T \<ge> 1 else C\<close>
  and \<open>per_task = O if O \<ge> 1 else min((total - 1) if total > 1 else C, 8)\<close>.\<close>

definition spec_total :: "int \<Rightarrow> int \<Rightarrow> int" where
  "spec_total T C = (if T \<ge> 1 then T else C)"

definition spec_per_task :: "int \<Rightarrow> int \<Rightarrow> int \<Rightarrow> int" where
  "spec_per_task tot O' C =
     (if O' \<ge> 1 then O' else min (if tot > 1 then tot - 1 else C) 8)"

text \<open>The license resolver as the specification words it: the candidates in order (explicit
  argument, \<^verbatim>\<open>FS_LICENSE\<close>, the default path), the first non-empty and existing one wins.\<close>

definition spec_license_candidates :: "'wf world \<Rightarrow> opts \<Rightarrow> string list" where
  "spec_license_candidates w opts =
     (case fs_license_file opts of None \<Rightarrow> [] | Some p \<Rightarrow> [p])
     @ (case environ w ''FS_LICENSE'' of None \<Rightarrow> [] | Some p \<Rightarrow> [p])
     @ [path_join (getenv w ''FREESURFER_HOME'' []) ''license.txt'']"

definition spec_resolve_license :: "'wf world \<Rightarrow> opts \<Rightarrow> string option" where
  "spec_resolve_license w opts =
     find (\<lambda>p. p \<noteq> [] \<and> path_exists w p) (spec_license_candidates w opts)"

subsection \<open>Sample invocations\<close>

text \<open>The defaults of the parser, on a dataset at \<^verbatim>\<open>/data\<close> with output to \<^verbatim>\<open>/out\<close>.\<close>

definition default_opts :: opts where
  "default_opts =
     \<lparr>bids_dir = ''/data'', output_dir = ''/out'', analysis_level = ''participant'',
      participant_label = None, task_id = None, debug = False, nthreads = 0,
      omp_nthreads = 0, mem_mb = 0, low_mem = False, use_plugin = None, anat_only = False,
      ignore_aroma_denoising_errors = False, verbose_count = 0, ignore = [],
      longitudinal = False, t2s_coreg = False, bold2t1w_dof = 9,
      output_space = [''template'', ''fsaverage5''], use_bbr = None,
      template = ''MNI152NLin2009cAsym'', output_grid_reference = None,
      medial_surface_nan = False, use_aroma = False, skull_strip_template = ''OASIS'',
      fmap_bspline = False, fmap_no_demean = True, use_syn_sdc = False, force_syn = False,
      run_reconall = True, hires = True, fs_license_file = None, work_dir = None,
      resource_monitor = False, reports_only = False, run_uuid = None, write_graph = False,
      stop_on_first_crash = False\<rparr>"

text \<open>A host with four cores where every collaborator succeeds, the license is found through
  \<^verbatim>\<open>FS_LICENSE\<close> and the report aggregator counts no failure. Graph handles are numbers.\<close>

definition host :: "nat world" where
  "host =
     \<lparr>environ = [''FS_LICENSE'' \<mapsto> ''/lic/license.txt''],
      path_exists = (\<lambda>p. p = ''/lic/license.txt''),
      abspath = (\<lambda>p. if startswith p ''/'' then p else ''/cwd/'' @ p),
      cpu_count = 4, strftime_now = ''20180101-120000'', uuid4 = ''c0ffee'',
      collect_participants = (\<lambda>d f. Inr [''01'']),
      load_plugin = (\<lambda>f. Inr (YDict [(''plugin'', YStr ''Linear'')])),
      makedirs = (\<lambda>d. None),
      generate_reports = (\<lambda>s out wd u. 0),
      init_fmriprep_wf = (\<lambda>a. Inr 7),
      wf_write_graph = (\<lambda>g. None),
      wf_run = (\<lambda>g p. None)\<rparr>"

text \<open>Variations of the host: a dataset that is not valid, a working directory that cannot
  be made, an engine that reports a partial failure while two participants fail in the
  reports, an engine that fails with the same message under a class that inherits from
  \<^verbatim>\<open>RuntimeError\<close>, an engine that fails with the same message under a class that does not, a
  renderer that fails, and a host where \<^verbatim>\<open>FS_LICENSE\<close> is set to the empty string while the
  license lies at the default path.\<close>

definition host_no_dataset :: "nat world" where
  "host_no_dataset =
     host\<lparr>collect_participants := (\<lambda>d f. Inl (OtherError [''ValueError'', ''Exception'', ''BaseException''] ''not a BIDS dataset''))\<rparr>"

definition host_readonly :: "nat world" where
  "host_readonly =
     host\<lparr>makedirs := (\<lambda>d. if d = ''/cwd/work''
                             then Some (OtherError [''PermissionError'', ''OSError'', ''Exception'', ''BaseException''] d) else None)\<rparr>"

definition host_partial :: "nat world" where
  "host_partial =
     host\<lparr>wf_run := (\<lambda>g p. Some (RuntimeError
                          ''Workflow did not execute cleanly. Check log for details'')),
          generate_reports := (\<lambda>s out wd u. 2)\<rparr>"

definition host_subclass :: "nat world" where
  "host_subclass =
     host\<lparr>wf_run := (\<lambda>g p. Some (OtherError
                          [''NotImplementedError'', ''RuntimeError'', ''Exception'', ''BaseException'']
                          ''Workflow did not execute cleanly. Check log for details''))\<rparr>"

definition host_other_class :: "nat world" where
  "host_other_class =
     host\<lparr>wf_run := (\<lambda>g p. Some (OtherError [''ValueError'', ''Exception'', ''BaseException'']
                          ''Workflow did not execute cleanly. Check log for details''))\<rparr>"

definition host_no_renderer :: "nat world" where
  "host_no_renderer =
     host\<lparr>wf_write_graph := (\<lambda>g. Some (OtherError [''OSError'', ''Exception'', ''BaseException'']
                                  ''dot: command not found''))\<rparr>"

definition host_empty_variable :: "nat world" where
  "host_empty_variable =
     host\<lparr>environ := [''FS_LICENSE'' \<mapsto> [], ''FREESURFER_HOME'' \<mapsto> ''/opt/freesurfer''],
          path_exists := (\<lambda>p. p = ''/opt/freesurfer/license.txt'')\<rparr>"

text \<open>Variations of the options.\<close>

definition reports_only_opts :: opts where
  "reports_only_opts = default_opts\<lparr>reports_only := True, run_uuid := Some ''20171231-235959_prior''\<rparr>"

definition aroma_opts :: opts where
  "aroma_opts = default_opts\<lparr>use_aroma := True, output_space := [''T1w'']\<rparr>"

definition explicit_license_opts :: opts where
  "explicit_license_opts = default_opts\<lparr>fs_license_file := Some ''/missing/license.txt''\<rparr>"

definition plugin_opts :: opts where
  "plugin_opts = default_opts\<lparr>use_plugin := Some ''/plugin.yml'', mem_mb := 2048\<rparr>"

definition write_graph_opts :: opts where
  "write_graph_opts = default_opts\<lparr>write_graph := True\<rparr>"

definition huge_memory_opts :: opts where
  "huge_memory_opts = default_opts\<lparr>use_plugin := Some ''/plugin.yml'', mem_mb := 2 ^ 1034\<rparr>"

section \<open>Properties\<close>

subsection \<open>The float quotient\<close>

lemma round_half_even_of_int: "round_half_even (of_int k) = k"
  by (simp add: round_half_even_def)

text \<open>Below \<open>2 ^ 53\<close> in magnitude the quotient is exact.\<close>

lemma double_of_quotient_1024_exact:
  assumes "0 < m" and "m < 2 ^ 53"
  shows "double_of_quotient_1024 m = of_int m / 1024"
proof -
  define L where "L = bitlen m"
  from bitlen_bounds [OF assms(1)] have lo: "2 ^ nat (L - 1) \<le> m"
    by (simp add: L_def)
  have "(2::int) ^ nat (L - 1) < 2 ^ 53" using lo assms(2) by linarith
  then have "nat (L - 1) < 53" by (rule power_less_imp_less_exp [rotated]) simp
  then have L53: "L \<le> 53" by linarith
  define k where "k = nat (53 - L)"
  have split: "nat (63 - L) = k + 10" using L53 by (simp add: k_def)
  have ulp: "pow2 (L - 11 - 52) = 1 / (2 ^ k * 1024)"
    using L53 split by (simp add: pow2_def power_add)
  have q: "of_int m / 1024 / (1 / (2 ^ k * 1024)) = (of_int (m * 2 ^ k) :: rat)"
    by simp
  have v: "(of_int (m * 2 ^ k) :: rat) * (1 / (2 ^ k * 1024)) = of_int m / 1024"
    by simp
  show ?thesis
    unfolding double_of_quotient_1024_def Let_def L_def [symmetric] ulp q
      round_half_even_of_int v ..
qed

lemma truediv_1024_exact:
  assumes "\<bar>a\<bar> < 2 ^ 53"
  shows "truediv_1024 a = Inr (of_int a / 1024)"
proof (cases "a = 0")
  case True
  then show ?thesis by (simp add: truediv_1024_def)
next
  case False
  then have pos: "0 < \<bar>a\<bar>" by simp
  note d = double_of_quotient_1024_exact [OF pos assms]
  have "(of_int \<bar>a\<bar> :: rat) < of_int (2 ^ 53)"
    using assms by (simp only: of_int_less_iff)
  then have "(of_int \<bar>a\<bar> / 1024 :: rat) < 2 ^ 53" by simp
  also have "(2::rat) ^ 53 < 2 ^ 1024" by (rule power_strict_increasing) simp_all
  finally have small: "\<not> (2::rat) ^ 1024 \<le> of_int \<bar>a\<bar> / 1024"
    by (simp only: not_le)
  have sgn: "(if a < 0 then - (of_int \<bar>a\<bar> / 1024) else of_int \<bar>a\<bar> / 1024)
      = (of_int a / 1024 :: rat)"
    by simp
  show ?thesis
    unfolding truediv_1024_def Let_def d using False small
    by (simp only: if_False sgn)
qed

text \<open>From \<open>2 ^ 1034\<close> on, a power of two overflows.\<close>

lemma bitlen_two_power: "bitlen (2 ^ n) = int n + 1"
  using bitlen_pow2 [of 1 n] by (simp add: bitlen_alt_def)

lemma truediv_1024_overflow:
  assumes "1034 \<le> n"
  shows "truediv_1024 (2 ^ n) = Inl overflow_error"
proof -
  define k where "k = n - 62"
  have n: "n = k + 52 + 10" using assms by (simp add: k_def)
  have ulp: "pow2 (bitlen (2 ^ n) - 11 - 52) = 2 ^ k"
    using assms by (simp add: bitlen_two_power pow2_def k_def nat_diff_distrib)
  have "(2::rat) ^ n = of_int (2 ^ 52) * 1024 * 2 ^ k"
    by (subst n) (simp add: power_add)
  then have q: "of_int (2 ^ n) / 1024 / 2 ^ k = (of_int (2 ^ 52) :: rat)"
    by simp
  have v: "double_of_quotient_1024 (2 ^ n) = of_int (2 ^ 52) * 2 ^ k"
    unfolding double_of_quotient_1024_def Let_def ulp q round_half_even_of_int ..
  have "1024 \<le> 52 + k"
    using assms by (simp add: k_def)
  then have "(2::rat) ^ 1024 \<le> 2 ^ (52 + k)"
    by (rule power_increasing) simp
  also have "\<dots> = of_int (2 ^ 52) * 2 ^ k"
    by (simp only: power_add of_int_power of_int_numeral)
  finally have big: "(2::rat) ^ 1024 \<le> double_of_quotient_1024 (2 ^ n)"
    unfolding v .
  have nz: "(2::int) ^ n \<noteq> 0" "\<bar>(2::int) ^ n\<bar> = 2 ^ n"
    by simp_all
  show ?thesis
    unfolding truediv_1024_def Let_def nz(2) using nz(1) big
    by (simp only: if_False if_True)
qed

lemma multiproc_settings_unset: "multiproc_settings n 0 = Inr (multiproc_dict n None)"
  by (simp add: multiproc_settings_def)

lemma multiproc_settings_exact:
  "mem \<noteq> 0 \<Longrightarrow> \<bar>mem\<bar> < 2 ^ 53 \<Longrightarrow>
   multiproc_settings n mem = Inr (multiproc_dict n (Some (of_int mem / 1024)))"
  by (simp add: multiproc_settings_def truediv_1024_exact)

lemma multiproc_settings_n_procs:
  "multiproc_settings n mem = Inr ps \<Longrightarrow>
   Option.bind (yaml_get ps ''plugin_args'') (\<lambda>a. yaml_get a ''n_procs'') = Some (YInt n)"
  by (auto simp: multiproc_settings_def multiproc_dict_def split: if_splits sum.splits)

subsection \<open>The worker, step by step\<close>

lemma build_workflow_check_fails:
  "check_inputs opts = Inl e \<Longrightarrow> build_workflow w opts rv = (Inl e, rv, [])"
  by (simp add: build_workflow_def)

lemma build_workflow_collect_fails:
  "check_inputs opts = Inr warns \<Longrightarrow>
   collect_participants w (abspath w (bids_dir opts)) (participant_label opts) = Inl e \<Longrightarrow>
   build_workflow w opts rv = (Inl e, rv, map (\<lambda>m. LogWarning m []) warns)"
  by (simp add: build_workflow_def)

lemma build_workflow_plugin_fails:
  "check_inputs opts = Inr warns \<Longrightarrow>
   collect_participants w (abspath w (bids_dir opts)) (participant_label opts) = Inr sl \<Longrightarrow>
   resolve_plugin_settings w opts = Inl e \<Longrightarrow>
   build_workflow w opts rv = (Inl e, rv, map (\<lambda>m. LogWarning m []) warns)"
  by (simp add: build_workflow_def)

lemma build_workflow_memory_overflows:
  "1034 \<le> k \<Longrightarrow> mem_mb opts = 2 ^ k \<Longrightarrow> check_inputs opts = Inr warns \<Longrightarrow>
   collect_participants w (abspath w (bids_dir opts)) (participant_label opts) = Inr sl \<Longrightarrow>
   build_workflow w opts rv = (Inl overflow_error, rv, map (\<lambda>m. LogWarning m []) warns)"
  by (rule build_workflow_plugin_fails)
     (simp_all add: resolve_plugin_settings_def multiproc_settings_def truediv_1024_overflow)

lemma makedirs_all_fails:
  "makedirs_all w ds = (Some e, evs) \<Longrightarrow> \<exists>d \<in> set ds. makedirs w d = Some e"
  by (induction ds arbitrary: evs) (auto split: option.splits prod.splits)

lemma build_workflow_makedirs_fails:
  "check_inputs opts = Inr warns \<Longrightarrow>
   collect_participants w (abspath w (bids_dir opts)) (participant_label opts) = Inr sl \<Longrightarrow>
   resolve_plugin_settings w opts = Inr ps \<Longrightarrow>
   makedirs_all w [resolved_output_dir w opts, resolved_log_dir w opts, resolved_work_dir w opts]
     = (Some e, evs) \<Longrightarrow>
   fst (build_workflow w opts rv) = Inl e \<and> fst (snd (build_workflow w opts rv)) = rv"
  by (simp add: build_workflow_def Let_def)

lemma build_workflow_setup:
  assumes "worker_setup w opts warns sl ps"
  shows "build_workflow w opts rv =
     (if reports_only opts then
        (Inr (),
         (publish w opts sl ps rv)\<lparr>rv_return_code :=
            Some (generate_reports w sl (resolved_output_dir w opts) (resolved_work_dir w opts)
                    (report_uuid w opts))\<rparr>,
         setup_events w opts warns
         @ [GenerateReports sl (resolved_output_dir w opts) (resolved_work_dir w opts)
              (report_uuid w opts)])
      else
        (case init_fmriprep_wf w (worker_args w opts sl) of
           Inl e \<Rightarrow>
             (Inl e, publish w opts sl ps rv,
              setup_events w opts warns @ [InitWorkflow (worker_args w opts sl)])
         | Inr graph \<Rightarrow>
             (Inr (),
              (publish w opts sl ps rv)\<lparr>rv_workflow := Some (Some graph),
                                         rv_return_code := Some 0\<rparr>,
              setup_events w opts warns @ [InitWorkflow (worker_args w opts sl)])))"
  using assms
  by (simp add: worker_setup_def build_workflow_def Let_def setup_events_def report_uuid_def
      split: sum.splits)


subsection \<open>The supervisor\<close>

lemma main_license_fails:
  "\<not> path_exists w (resolve_license w opts) \<Longrightarrow>
   main w opts = (Raised (RuntimeError license_msg), [])"
  by (simp add: main_def)

lemma main_no_result:
  "path_exists w (resolve_license w opts) \<Longrightarrow> rv_workflow (worker_retval w opts) = None \<Longrightarrow>
   main w opts = (Raised (KeyError ''workflow''), supervisor_prefix w opts @ worker_events w opts)"
  by (cases "build_workflow w opts empty_retval")
     (simp add: main_def worker_retval_def worker_events_def supervisor_prefix_def Let_def)

lemma main_absent_graph:
  "path_exists w (resolve_license w opts) \<Longrightarrow>
   rv_workflow (worker_retval w opts) = Some None \<Longrightarrow>
   snd (main w opts) = supervisor_prefix w opts @ worker_events w opts \<and>
   exit_status (fst (main w opts)) = 1"
  by (cases "build_workflow w opts empty_retval")
     (simp add: main_def worker_retval_def worker_events_def supervisor_prefix_def Let_def
        split: option.splits)

lemma setup_events_kinds:
  "\<not> list_ex is_GenerateReports (setup_events w opts warns)"
  "\<not> list_ex is_InitWorkflow (setup_events w opts warns)"
  "\<not> list_ex is_RunWorkflow (setup_events w opts warns)"
  "\<not> list_ex is_WriteGraph (setup_events w opts warns)"
  by (auto simp: setup_events_def list_ex_iff)

lemma main_setup:
  assumes "path_exists w (resolve_license w opts)" and "worker_setup w opts warns sl ps"
  shows "main w opts =
     (if reports_only opts then
        (Exit 1,
         supervisor_prefix w opts @ setup_events w opts warns
         @ [GenerateReports sl (resolved_output_dir w opts) (resolved_work_dir w opts)
              (report_uuid w opts)])
      else
        (case init_fmriprep_wf w (worker_args w opts sl) of
           Inl e \<Rightarrow>
             (Exit 1,
              supervisor_prefix w opts @ setup_events w opts warns
              @ [InitWorkflow (worker_args w opts sl)])
         | Inr graph \<Rightarrow>
             (case (if write_graph opts then wf_write_graph w graph else None) of
                Some e \<Rightarrow>
                  (Raised e,
                   supervisor_prefix w opts @ setup_events w opts warns
                   @ [InitWorkflow (worker_args w opts sl), WriteGraph graph])
              | None \<Rightarrow>
                  (fst (execute w graph ps sl (resolved_output_dir w opts)
                          (resolved_work_dir w opts) (fresh_run_uuid w)),
                   supervisor_prefix w opts @ setup_events w opts warns
                   @ [InitWorkflow (worker_args w opts sl)]
                   @ (if write_graph opts then [WriteGraph graph] else [])
                   @ snd (execute w graph ps sl (resolved_output_dir w opts)
                            (resolved_work_dir w opts) (fresh_run_uuid w))))))"
  using assms(1)
  by (simp add: main_def build_workflow_setup [OF assms(2)] publish_def empty_retval_def
      supervisor_prefix_def split: sum.splits option.splits prod.splits)


lemma worker_events_kinds:
  "\<not> list_ex is_RunWorkflow (worker_events w opts)"
  "\<not> list_ex is_WriteGraph (worker_events w opts)"
  "\<not> list_ex is_SetEnviron (worker_events w opts)"
  by (auto simp: worker_events_def build_workflow_def Let_def list_ex_iff
      split: sum.splits option.splits prod.splits if_splits)

lemma worker_reports_only:
  assumes "reports_only opts"
  shows "rv_workflow (worker_retval w opts) = None \<or> rv_workflow (worker_retval w opts) = Some None"
    and "\<not> list_ex is_InitWorkflow (worker_events w opts)"
  using assms
  by (auto simp: worker_retval_def worker_events_def build_workflow_def Let_def publish_def
      empty_retval_def list_ex_iff split: sum.splits option.splits prod.splits if_splits)

lemma worker_no_result:
  assumes "rv_workflow (worker_retval w opts) = None"
  shows "worker_retval w opts = empty_retval"
    and "\<not> list_ex is_GenerateReports (worker_events w opts)"
    and "\<not> list_ex is_InitWorkflow (worker_events w opts)"
  using assms
  by (auto simp: worker_retval_def worker_events_def build_workflow_def Let_def publish_def
      empty_retval_def list_ex_iff split: sum.splits option.splits prod.splits if_splits)

lemma worker_update_config:
  "UpdateConfig c \<in> set (worker_events w opts) \<Longrightarrow>
   c = nipype_config opts (resolved_log_dir w opts)"
  by (auto simp: worker_events_def build_workflow_def Let_def
      split: sum.splits option.splits prod.splits if_splits)

lemma main_starts_with_prefix:
  "path_exists w (resolve_license w opts) \<Longrightarrow> take 2 (snd (main w opts)) = supervisor_prefix w opts"
  by (cases "build_workflow w opts empty_retval")
     (simp add: main_def Let_def supervisor_prefix_def split: option.splits prod.splits)

subsection \<open>Execution\<close>

lemma execute_partial:
  "wf_run w g ps = Some e \<Longrightarrow> is_RuntimeError e \<Longrightarrow>
   str_in ''Workflow did not execute cleanly'' (str_exn e) \<Longrightarrow>
   execute w g ps sl out wd u
     = (Exit (if 1 + generate_reports w sl out wd u > 0 then 1 else 0),
        [GcCollect, RunWorkflow g ps, GenerateReports sl out wd u])"
  by (simp add: execute_def)

lemma execute_fatal:
  "wf_run w g ps = Some e \<Longrightarrow>
   \<not> (is_RuntimeError e \<and> str_in ''Workflow did not execute cleanly'' (str_exn e)) \<Longrightarrow>
   execute w g ps sl out wd u = (Raised e, [GcCollect, RunWorkflow g ps])"
  by (simp add: execute_def)

lemma execute_clean:
  "wf_run w g ps = None \<Longrightarrow>
   execute w g ps sl out wd u
     = (Exit (if generate_reports w sl out wd u > 0 then 1 else 0),
        [GcCollect, RunWorkflow g ps, GenerateReports sl out wd u])"
  by (simp add: execute_def)

lemma execute_runs_once:
  "filter is_RunWorkflow (snd (execute w g ps sl out wd u)) = [RunWorkflow g ps]"
  by (simp add: execute_def Let_def split: option.splits)

lemma setup_events_filter:
  "filter is_GenerateReports (setup_events w opts warns) = []"
  "filter is_InitWorkflow (setup_events w opts warns) = []"
  "filter is_RunWorkflow (setup_events w opts warns) = []"
  "filter is_WriteGraph (setup_events w opts warns) = []"
  using setup_events_kinds [of w opts warns]
  by (simp_all add: filter_empty_conv list_ex_iff)

lemma main_graph:
  assumes "path_exists w (resolve_license w opts)" and "worker_setup w opts warns sl ps"
    and "\<not> reports_only opts" and "init_fmriprep_wf w (worker_args w opts sl) = Inr g"
    and "write_graph opts \<longrightarrow> wf_write_graph w g = None"
  shows "main w opts =
     (fst (execute w g ps sl (resolved_output_dir w opts) (resolved_work_dir w opts)
             (fresh_run_uuid w)),
      supervisor_prefix w opts @ setup_events w opts warns
      @ [InitWorkflow (worker_args w opts sl)]
      @ (if write_graph opts then [WriteGraph g] else [])
      @ snd (execute w g ps sl (resolved_output_dir w opts) (resolved_work_dir w opts)
               (fresh_run_uuid w)))"
  using assms(3-5) by (simp add: main_setup [OF assms(1,2)])

subsection \<open>Unfolding the samples\<close>

lemmas sample_defs =
  host_def default_opts_def reports_only_opts_def aroma_opts_def explicit_license_opts_def
  plugin_opts_def write_graph_opts_def host_no_dataset_def host_readonly_def host_partial_def
  host_other_class_def host_no_renderer_def host_subclass_def host_empty_variable_def
  huge_memory_opts_def

lemmas path_defs =
  resolve_license_def getenv_def path_join_def resolved_output_dir_def resolved_log_dir_def
  resolved_work_dir_def fresh_run_uuid_def report_uuid_def

lemmas setup_defs =
  worker_setup_def check_inputs_def resolve_plugin_settings_def multiproc_settings_unset
  plan_nthreads_def
  plan_omp_nthreads_def worker_nthreads_def worker_omp_nthreads_def

section \<open>The claims\<close>

subsection \<open>Reports-only mode\<close>

text \<open>
  C1. The claim: in reports-only mode with a zero failure count from the report aggregation,
  \<^verbatim>\<open>main\<close> exits with status 0 and neither builds nor executes a graph; in reports-only mode
  the exit status is nonzero exactly when the status in the result is greater than zero.

  What the code does: the worker leaves \<^verbatim>\<open>None\<close> under \<^verbatim>\<open>'workflow'\<close> in reports-only mode, and
  \<^verbatim>\<open>main\<close> tests \<^verbatim>\<open>fmriprep_wf is None\<close> (line 255) before it tests \<^verbatim>\<open>opts.reports_only\<close>
  (line 261). Every reports-only run therefore ends with status 1, whatever the aggregation
  counted; no graph is built or executed. When the set-up succeeds the status stored in the
  result is the aggregation's count and the exit is \<^verbatim>\<open>sys.exit(1)\<close> all the same.
\<close>

theorem reports_only_exit_status:
  assumes "reports_only opts"
  shows "exit_status (fst (main w opts)) = 1 \<and>
     \<not> list_ex is_InitWorkflow (snd (main w opts)) \<and>
     \<not> list_ex is_RunWorkflow (snd (main w opts)) \<and>
     (path_exists w (resolve_license w opts) \<longrightarrow> worker_setup w opts warns sl ps \<longrightarrow>
        rv_return_code (worker_retval w opts)
          = Some (generate_reports w sl (resolved_output_dir w opts) (resolved_work_dir w opts)
                    (report_uuid w opts)) \<and>
        fst (main w opts) = Exit 1)"
proof (cases "path_exists w (resolve_license w opts)")
  case False
  then show ?thesis by (simp add: main_license_fails)
next
  case True
  have evs: "snd (main w opts) = supervisor_prefix w opts @ worker_events w opts"
    and st: "exit_status (fst (main w opts)) = 1"
    using worker_reports_only(1) [OF assms, of w] main_no_result [OF True]
      main_absent_graph [OF True]
    by auto
  have quiet: "\<not> list_ex is_InitWorkflow (snd (main w opts))"
    "\<not> list_ex is_RunWorkflow (snd (main w opts))"
    using worker_reports_only(2) [OF assms, of w] worker_events_kinds(1) [of w opts]
    by (simp_all add: evs supervisor_prefix_def)
  have "rv_return_code (worker_retval w opts)
          = Some (generate_reports w sl (resolved_output_dir w opts) (resolved_work_dir w opts)
                    (report_uuid w opts)) \<and>
        fst (main w opts) = Exit 1"
    if "worker_setup w opts warns sl ps"
    using assms main_setup [OF True that] build_workflow_setup [OF that, of empty_retval]
    by (simp add: worker_retval_def)
  with st quiet show ?thesis by simp
qed

theorem reports_only_exit_status_witness:
  "generate_reports host [''01''] ''/out'' ''/cwd/work'' ''20171231-235959_prior'' = 0 \<and>
   rv_return_code (worker_retval host reports_only_opts) = Some 0 \<and>
   fst (main host reports_only_opts) = Exit 1 \<and>
   exit_status (fst (main host reports_only_opts)) = 1"
proof -
  have ro: "reports_only reports_only_opts"
    by (simp add: sample_defs)
  have lic: "path_exists host (resolve_license host reports_only_opts)"
    by (simp add: sample_defs path_defs)
  have ws: "worker_setup host reports_only_opts [] [''01''] (multiproc_dict 4 None)"
    by (simp add: sample_defs setup_defs)
  have dirs: "resolved_output_dir host reports_only_opts = ''/out''"
    "resolved_work_dir host reports_only_opts = ''/cwd/work''"
    "report_uuid host reports_only_opts = ''20171231-235959_prior''"
    by (simp_all add: sample_defs path_defs)
  have zero: "generate_reports host [''01''] ''/out'' ''/cwd/work'' ''20171231-235959_prior'' = 0"
    by (simp add: sample_defs)
  show ?thesis
    using reports_only_exit_status [OF ro, of host "[]" "[''01'']" "multiproc_dict 4 None"]
      lic ws zero
    by (simp add: dirs)
qed

subsection \<open>The thread counts\<close>

text \<open>
  C3. The claim: for all requested totals \<open>T\<close>, per-task counts \<open>O'\<close> and core counts \<open>C\<close>,
  the total is \<open>T\<close> when \<open>T \<ge> 1\<close> and \<open>C\<close> otherwise, and the per-task count is \<open>O'\<close> when
  \<open>O' \<ge> 1\<close> and otherwise \<open>min (total - 1 if total > 1 else C) 8\<close>; with \<open>T = 0\<close>,
  \<open>O' = 0\<close>, \<open>C = 4\<close> the total is 4 and the per-task count 3; with \<open>T = 1\<close>, \<open>O' = 0\<close> the
  per-task count is \<open>min C 8\<close>.

  What the code does: the total is as claimed (line 333 tests \<^verbatim>\<open>nthreads < 1\<close>). The per-task
  count is replaced only when it is zero (line 355 tests \<^verbatim>\<open>omp_nthreads == 0\<close>): for every
  \<open>O' \<ge> 0\<close> it is the claimed value, and so are the two instances, but a negative request is
  kept as it is. Without a plugin file, a worker whose set-up succeeds publishes the
  \<^verbatim>\<open>MultiProc\<close> settings with that total and gives the graph builder that per-task count.
\<close>

theorem planner_thread_counts:
  "plan_nthreads C T = (if T \<ge> 1 then T else C) \<and>
   plan_omp_nthreads C (plan_nthreads C T) O' =
     (if O' \<noteq> 0 then O'
      else min (if plan_nthreads C T > 1 then plan_nthreads C T - 1 else C) 8) \<and>
   (0 \<le> O' \<longrightarrow>
      plan_omp_nthreads C (plan_nthreads C T) O' = spec_per_task (spec_total T C) O' C) \<and>
   plan_nthreads 4 0 = 4 \<and> plan_omp_nthreads 4 (plan_nthreads 4 0) 0 = 3 \<and>
   plan_omp_nthreads C (plan_nthreads C 1) 0 = min C 8 \<and>
   (worker_setup w opts warns sl ps \<longrightarrow> \<not> reports_only opts \<longrightarrow> use_plugin opts = None \<longrightarrow>
      multiproc_settings (plan_nthreads (cpu_count w) (nthreads opts)) (mem_mb opts) = Inr ps \<and>
      Option.bind (yaml_get ps ''plugin_args'') (\<lambda>a. yaml_get a ''n_procs'')
        = Some (YInt (plan_nthreads (cpu_count w) (nthreads opts))) \<and>
      rv_plugin_settings (worker_retval w opts) = Some ps \<and>
      filter is_InitWorkflow (worker_events w opts) = [InitWorkflow (worker_args w opts sl)] \<and>
      wf_omp_nthreads (worker_args w opts sl) =
        plan_omp_nthreads (cpu_count w) (plan_nthreads (cpu_count w) (nthreads opts))
          (omp_nthreads opts))"
proof -
  have planner: "plan_nthreads C T = (if T \<ge> 1 then T else C)"
    "plan_omp_nthreads C (plan_nthreads C T) O' =
       (if O' \<noteq> 0 then O'
        else min (if plan_nthreads C T > 1 then plan_nthreads C T - 1 else C) 8)"
    "0 \<le> O' \<longrightarrow>
       plan_omp_nthreads C (plan_nthreads C T) O' = spec_per_task (spec_total T C) O' C"
    "plan_nthreads 4 0 = 4" "plan_omp_nthreads 4 (plan_nthreads 4 0) 0 = 3"
    "plan_omp_nthreads C (plan_nthreads C 1) 0 = min C 8"
    by (auto simp: plan_nthreads_def plan_omp_nthreads_def spec_per_task_def spec_total_def)
  have worker: "multiproc_settings (plan_nthreads (cpu_count w) (nthreads opts)) (mem_mb opts)
        = Inr ps \<and>
      Option.bind (yaml_get ps ''plugin_args'') (\<lambda>a. yaml_get a ''n_procs'')
        = Some (YInt (plan_nthreads (cpu_count w) (nthreads opts))) \<and>
      rv_plugin_settings (worker_retval w opts) = Some ps \<and>
      filter is_InitWorkflow (worker_events w opts) = [InitWorkflow (worker_args w opts sl)] \<and>
      wf_omp_nthreads (worker_args w opts sl) =
        plan_omp_nthreads (cpu_count w) (plan_nthreads (cpu_count w) (nthreads opts))
          (omp_nthreads opts)"
    if s: "worker_setup w opts warns sl ps" and "\<not> reports_only opts" "use_plugin opts = None"
  proof -
    have ps: "multiproc_settings (plan_nthreads (cpu_count w) (nthreads opts)) (mem_mb opts)
        = Inr ps"
      using s that(3)
      by (auto simp: worker_setup_def resolve_plugin_settings_def split: sum.splits)
    have quiet: "filter is_InitWorkflow (setup_events w opts warns) = []"
      using setup_events_kinds(2) [of w opts warns] by (simp add: filter_empty_conv list_ex_iff)
    show ?thesis
      using that(2) build_workflow_setup [OF s, of empty_retval] quiet ps
        multiproc_settings_n_procs [OF ps]
      by (simp add: worker_retval_def worker_events_def publish_def worker_args_def
          init_args_def worker_omp_nthreads_def worker_nthreads_def split: sum.splits)
  qed
  from planner worker show ?thesis by blast
qed

text \<open>On four cores with nothing requested the counts are 4 and 3. With
  \<^verbatim>\<open>--omp-nthreads -1\<close> the graph builder is given \<open>-1\<close> threads per task, where the claimed
  formula gives 3.\<close>

theorem planner_thread_counts_witness:
  "(0::int) \<le> 0 \<and> plan_nthreads 4 0 = 4 \<and>
   plan_omp_nthreads 4 (plan_nthreads 4 0) 0 = spec_per_task (spec_total 0 4) 0 4 \<and>
   worker_setup host default_opts [] [''01''] (multiproc_dict 4 None) \<and>
   rv_plugin_settings (worker_retval host default_opts) = Some (multiproc_dict 4 None) \<and>
   wf_omp_nthreads (worker_args host default_opts [''01'']) = 3 \<and>
   worker_setup host (default_opts\<lparr>omp_nthreads := - 1\<rparr>) [] [''01''] (multiproc_dict 4 None) \<and>
   filter is_InitWorkflow (worker_events host (default_opts\<lparr>omp_nthreads := - 1\<rparr>))
     = [InitWorkflow (worker_args host (default_opts\<lparr>omp_nthreads := - 1\<rparr>) [''01''])] \<and>
   wf_omp_nthreads (worker_args host (default_opts\<lparr>omp_nthreads := - 1\<rparr>) [''01'']) = - 1 \<and>
   spec_per_task (spec_total 0 4) (- 1) 4 = 3"
proof -
  have ws: "worker_setup host default_opts [] [''01''] (multiproc_dict 4 None)"
    "worker_setup host (default_opts\<lparr>omp_nthreads := - 1\<rparr>) [] [''01''] (multiproc_dict 4 None)"
    by (simp_all add: sample_defs setup_defs)
  have opts: "\<not> reports_only default_opts" "use_plugin default_opts = None"
    "cpu_count host = 4" "nthreads default_opts = 0" "omp_nthreads default_opts = 0"
    "mem_mb default_opts = 0"
    by (simp_all add: sample_defs)
  have opts': "\<not> reports_only (default_opts\<lparr>omp_nthreads := - 1\<rparr>)"
    "use_plugin (default_opts\<lparr>omp_nthreads := - 1\<rparr>) = None"
    "nthreads (default_opts\<lparr>omp_nthreads := - 1\<rparr>) = 0"
    "omp_nthreads (default_opts\<lparr>omp_nthreads := - 1\<rparr>) = - 1"
    by (simp_all add: sample_defs)
  have sp: "spec_per_task (spec_total 0 4) (- 1) 4 = 3"
    by (simp add: spec_per_task_def spec_total_def)
  note one = planner_thread_counts [of 4 0 0 host default_opts "[]" "[''01'']"
      "multiproc_dict 4 None"]
  note two = planner_thread_counts [of 4 0 "- 1" host "default_opts\<lparr>omp_nthreads := - 1\<rparr>"
      "[]" "[''01'']" "multiproc_dict 4 None"]
  have r1: "plan_nthreads 4 0 = 4"
    "plan_omp_nthreads 4 (plan_nthreads 4 0) 0 = spec_per_task (spec_total 0 4) 0 4"
    "rv_plugin_settings (worker_retval host default_opts) = Some (multiproc_dict 4 None)"
    "wf_omp_nthreads (worker_args host default_opts [''01'']) = 3"
    using one ws(1) opts by (simp_all add: plan_nthreads_def plan_omp_nthreads_def)
  have r2: "filter is_InitWorkflow (worker_events host (default_opts\<lparr>omp_nthreads := - 1\<rparr>))
     = [InitWorkflow (worker_args host (default_opts\<lparr>omp_nthreads := - 1\<rparr>) [''01''])]"
    "wf_omp_nthreads (worker_args host (default_opts\<lparr>omp_nthreads := - 1\<rparr>) [''01'']) = - 1"
    using two ws(2) opts' opts(3) by (simp_all add: plan_nthreads_def plan_omp_nthreads_def)
  from ws r1 r2 sp show ?thesis by simp
qed

subsection \<open>Failures inside the worker\<close>

text \<open>
  C2, as amended. The worker has no handler: when the option checks fail, when the dataset is
  not valid, or when one of the three directories cannot be made, the exception leaves
  \<^verbatim>\<open>build_workflow\<close> and the dictionary is as empty as it was (no status, no graph key).
  Whenever the worker leaves no \<^verbatim>\<open>'workflow'\<close> key, the first read in \<^verbatim>\<open>main\<close> raises
  \<^verbatim>\<open>KeyError\<close>, which nothing catches: the process ends with status 1, and \<^verbatim>\<open>main\<close> neither
  renders, nor executes, nor reports (nor has the worker built a graph or reported).
\<close>

theorem worker_failure_escapes:
  "(check_inputs opts = Inl e \<or>
    (check_inputs opts = Inr warns \<and>
     collect_participants w (abspath w (bids_dir opts)) (participant_label opts) = Inl e) \<or>
    (check_inputs opts = Inr warns \<and>
     collect_participants w (abspath w (bids_dir opts)) (participant_label opts) = Inr sl \<and>
     resolve_plugin_settings w opts = Inr ps \<and>
     fst (makedirs_all w [resolved_output_dir w opts, resolved_log_dir w opts,
                          resolved_work_dir w opts]) = Some e)
    \<longrightarrow> fst (build_workflow w opts empty_retval) = Inl e \<and> worker_retval w opts = empty_retval) \<and>
   (rv_workflow (worker_retval w opts) = None \<longrightarrow> path_exists w (resolve_license w opts) \<longrightarrow>
      main w opts = (Raised (KeyError ''workflow''), supervisor_prefix w opts @ worker_events w opts) \<and>
      exit_status (fst (main w opts)) = 1 \<and>
      \<not> list_ex is_InitWorkflow (snd (main w opts)) \<and>
      \<not> list_ex is_WriteGraph (snd (main w opts)) \<and>
      \<not> list_ex is_RunWorkflow (snd (main w opts)) \<and>
      \<not> list_ex is_GenerateReports (snd (main w opts)))"
proof -
  have a: "fst (build_workflow w opts empty_retval) = Inl e \<and> worker_retval w opts = empty_retval"
    if "check_inputs opts = Inl e"
    using build_workflow_check_fails [OF that, of w empty_retval]
    by (simp add: worker_retval_def)
  have b: "fst (build_workflow w opts empty_retval) = Inl e \<and> worker_retval w opts = empty_retval"
    if "check_inputs opts = Inr warns"
      "collect_participants w (abspath w (bids_dir opts)) (participant_label opts) = Inl e"
    using build_workflow_collect_fails [OF that, of empty_retval]
    by (simp add: worker_retval_def)
  have c: "fst (build_workflow w opts empty_retval) = Inl e \<and> worker_retval w opts = empty_retval"
    if h: "check_inputs opts = Inr warns"
      "collect_participants w (abspath w (bids_dir opts)) (participant_label opts) = Inr sl"
      "resolve_plugin_settings w opts = Inr ps"
      and mk: "fst (makedirs_all w [resolved_output_dir w opts, resolved_log_dir w opts,
                            resolved_work_dir w opts]) = Some e"
  proof -
    have "makedirs_all w [resolved_output_dir w opts, resolved_log_dir w opts,
                            resolved_work_dir w opts]
          = (Some e, snd (makedirs_all w [resolved_output_dir w opts, resolved_log_dir w opts,
                            resolved_work_dir w opts]))"
      using mk by (metis prod.collapse)
    from build_workflow_makedirs_fails [OF h this, of empty_retval]
    show ?thesis by (simp add: worker_retval_def)
  qed
  have d: "main w opts = (Raised (KeyError ''workflow''), supervisor_prefix w opts @ worker_events w opts) \<and>
      exit_status (fst (main w opts)) = 1 \<and>
      \<not> list_ex is_InitWorkflow (snd (main w opts)) \<and>
      \<not> list_ex is_WriteGraph (snd (main w opts)) \<and>
      \<not> list_ex is_RunWorkflow (snd (main w opts)) \<and>
      \<not> list_ex is_GenerateReports (snd (main w opts))"
    if "rv_workflow (worker_retval w opts) = None" "path_exists w (resolve_license w opts)"
    using main_no_result [OF that(2,1)] worker_no_result(2,3) [OF that(1)]
      worker_events_kinds(1,2) [of w opts]
    by (simp add: supervisor_prefix_def)
  from a b c d show ?thesis by blast
qed

theorem worker_failure_escapes_witness:
  "collect_participants host_no_dataset (abspath host_no_dataset (bids_dir default_opts))
     (participant_label default_opts) = Inl (OtherError [''ValueError'', ''Exception'', ''BaseException''] ''not a BIDS dataset'') \<and>
   fst (build_workflow host_no_dataset default_opts empty_retval)
     = Inl (OtherError [''ValueError'', ''Exception'', ''BaseException''] ''not a BIDS dataset'') \<and>
   worker_retval host_no_dataset default_opts = empty_retval \<and>
   path_exists host_no_dataset (resolve_license host_no_dataset default_opts) \<and>
   fst (main host_no_dataset default_opts) = Raised (KeyError ''workflow'') \<and>
   exit_status (fst (main host_no_dataset default_opts)) = 1 \<and>
   fst (makedirs_all host_readonly [resolved_output_dir host_readonly default_opts,
          resolved_log_dir host_readonly default_opts, resolved_work_dir host_readonly default_opts])
     = Some (OtherError [''PermissionError'', ''OSError'', ''Exception'', ''BaseException''] ''/cwd/work'') \<and>
   fst (build_workflow host_readonly default_opts empty_retval)
     = Inl (OtherError [''PermissionError'', ''OSError'', ''Exception'', ''BaseException''] ''/cwd/work'') \<and>
   worker_retval host_readonly default_opts = empty_retval"
proof -
  have chk: "check_inputs default_opts = Inr []"
    by (simp add: sample_defs check_inputs_def)
  have col: "collect_participants host_no_dataset (abspath host_no_dataset (bids_dir default_opts))
     (participant_label default_opts) = Inl (OtherError [''ValueError'', ''Exception'', ''BaseException''] ''not a BIDS dataset'')"
    by (simp add: sample_defs)
  have lic: "path_exists host_no_dataset (resolve_license host_no_dataset default_opts)"
    by (simp add: sample_defs path_defs)
  have col2: "collect_participants host_readonly (abspath host_readonly (bids_dir default_opts))
     (participant_label default_opts) = Inr [''01'']"
    by (simp add: sample_defs)
  have plug: "resolve_plugin_settings host_readonly default_opts = Inr (multiproc_dict 4 None)"
    by (simp add: sample_defs setup_defs)
  have mk: "fst (makedirs_all host_readonly [resolved_output_dir host_readonly default_opts,
          resolved_log_dir host_readonly default_opts, resolved_work_dir host_readonly default_opts])
     = Some (OtherError [''PermissionError'', ''OSError'', ''Exception'', ''BaseException''] ''/cwd/work'')"
    by (simp add: sample_defs path_defs)
  note one = worker_failure_escapes [of default_opts "OtherError [''ValueError'', ''Exception'', ''BaseException''] ''not a BIDS dataset''"
      "[]" host_no_dataset "[''01'']" "multiproc_dict 4 None"]
  note two = worker_failure_escapes [of default_opts "OtherError [''PermissionError'', ''OSError'', ''Exception'', ''BaseException''] ''/cwd/work''"
      "[]" host_readonly "[''01'']" "multiproc_dict 4 None"]
  have r1: "fst (build_workflow host_no_dataset default_opts empty_retval)
     = Inl (OtherError [''ValueError'', ''Exception'', ''BaseException''] ''not a BIDS dataset'') \<and>
   worker_retval host_no_dataset default_opts = empty_retval"
    using one chk col by blast
  then have "rv_workflow (worker_retval host_no_dataset default_opts) = None"
    by (simp add: empty_retval_def)
  with one lic have r2: "fst (main host_no_dataset default_opts) = Raised (KeyError ''workflow'') \<and>
   exit_status (fst (main host_no_dataset default_opts)) = 1"
    by simp
  have r3: "fst (build_workflow host_readonly default_opts empty_retval)
     = Inl (OtherError [''PermissionError'', ''OSError'', ''Exception'', ''BaseException''] ''/cwd/work'') \<and>
   worker_retval host_readonly default_opts = empty_retval"
    using two chk col2 plug mk by blast
  from col lic mk r1 r2 r3 show ?thesis by blast
qed

text \<open>The claim as stated (the failure is captured in the status field, no fault leaves the
  worker) fails when AROMA is requested without the \<^verbatim>\<open>template\<close> output space: the
  \<^verbatim>\<open>RuntimeError\<close> leaves the worker and the result has neither status nor graph key.\<close>

theorem aroma_fault_counterexample:
  "fst (build_workflow host aroma_opts empty_retval)
     = Inl (RuntimeError (aroma_msg ''MNI152NLin2009cAsym'' [''T1w''])) \<and>
   rv_return_code (worker_retval host aroma_opts) = None \<and>
   rv_workflow (worker_retval host aroma_opts) = None \<and>
   fst (main host aroma_opts) = Raised (KeyError ''workflow'')"
proof -
  have chk: "check_inputs aroma_opts = Inl (RuntimeError (aroma_msg ''MNI152NLin2009cAsym'' [''T1w'']))"
    by (simp add: sample_defs check_inputs_def)
  have lic: "path_exists host (resolve_license host aroma_opts)"
    by (simp add: sample_defs path_defs)
  have w: "build_workflow host aroma_opts empty_retval
     = (Inl (RuntimeError (aroma_msg ''MNI152NLin2009cAsym'' [''T1w''])), empty_retval, [])"
    by (rule build_workflow_check_fails [OF chk])
  then have none: "rv_workflow (worker_retval host aroma_opts) = None"
    "rv_return_code (worker_retval host aroma_opts) = None"
    by (simp_all add: worker_retval_def empty_retval_def)
  from main_no_result [OF lic none(1)] w none show ?thesis by simp
qed

subsection \<open>The license\<close>

text \<open>
  C4. The claim: the license is resolved by a three-tier precedence (explicit path, then
  \<^verbatim>\<open>FS_LICENSE\<close>, then \<^verbatim>\<open>license.txt\<close> under \<^verbatim>\<open>FREESURFER_HOME\<close>) in which the first candidate
  that is not empty and names an existing file wins; the launch fails, before any worker is
  started, exactly when no candidate names an existing file; on success the resolved path is
  written back into the environment.

  What the code does: line 219 takes the first candidate that is present (the explicit
  argument when given and not empty, else the value of \<^verbatim>\<open>FS_LICENSE\<close> when the variable is
  set, else the default path) and line 220 tests that one path only. The launch fails, with
  no event at all, exactly when that one path does not exist, also when a later candidate
  does, although the message it raises says that an existing file was looked for at the
  three places in order. When the chosen path exists and is not empty it is the path the
  claim selects, and it is written to \<^verbatim>\<open>FS_LICENSE\<close> before the worker starts.
\<close>

theorem license_resolution:
  "(fs_license_file opts = Some p \<and> p \<noteq> [] \<longrightarrow> resolve_license w opts = p) \<and>
   ((fs_license_file opts = None \<or> fs_license_file opts = Some []) \<and>
      environ w ''FS_LICENSE'' = Some v \<longrightarrow> resolve_license w opts = v) \<and>
   ((fs_license_file opts = None \<or> fs_license_file opts = Some []) \<and>
      environ w ''FS_LICENSE'' = None \<longrightarrow>
        resolve_license w opts = path_join (getenv w ''FREESURFER_HOME'' []) ''license.txt'') \<and>
   (main w opts = (Raised (RuntimeError license_msg), []) \<longleftrightarrow>
      \<not> path_exists w (resolve_license w opts)) \<and>
   (path_exists w (resolve_license w opts) \<longrightarrow>
      take 2 (snd (main w opts))
        = [SetEnviron ''FS_LICENSE'' (resolve_license w opts), StartProcess]) \<and>
   (path_exists w (resolve_license w opts) \<and> resolve_license w opts \<noteq> [] \<longrightarrow>
      spec_resolve_license w opts = Some (resolve_license w opts))"
proof -
  have tiers: "fs_license_file opts = Some p \<and> p \<noteq> [] \<longrightarrow> resolve_license w opts = p"
    "(fs_license_file opts = None \<or> fs_license_file opts = Some []) \<and>
      environ w ''FS_LICENSE'' = Some v \<longrightarrow> resolve_license w opts = v"
    "(fs_license_file opts = None \<or> fs_license_file opts = Some []) \<and>
      environ w ''FS_LICENSE'' = None \<longrightarrow>
        resolve_license w opts = path_join (getenv w ''FREESURFER_HOME'' []) ''license.txt''"
    by (auto simp: resolve_license_def getenv_def)
  have started: "take 2 (snd (main w opts))
        = [SetEnviron ''FS_LICENSE'' (resolve_license w opts), StartProcess]"
    if "path_exists w (resolve_license w opts)"
    using main_starts_with_prefix [OF that] by (simp add: supervisor_prefix_def)
  have fails: "main w opts = (Raised (RuntimeError license_msg), []) \<longleftrightarrow>
      \<not> path_exists w (resolve_license w opts)"
  proof
    assume m: "main w opts = (Raised (RuntimeError license_msg), [])"
    show "\<not> path_exists w (resolve_license w opts)"
    proof
      assume "path_exists w (resolve_license w opts)"
      from started [OF this] m show False by simp
    qed
  next
    assume "\<not> path_exists w (resolve_license w opts)"
    then show "main w opts = (Raised (RuntimeError license_msg), [])"
      by (rule main_license_fails)
  qed
  have agrees: "spec_resolve_license w opts = Some (resolve_license w opts)"
    if "path_exists w (resolve_license w opts) \<and> resolve_license w opts \<noteq> []"
    using that
    by (cases "fs_license_file opts"; cases "environ w ''FS_LICENSE''")
       (auto simp: spec_resolve_license_def spec_license_candidates_def resolve_license_def
          getenv_def Let_def)
  from tiers started fails agrees show ?thesis by blast
qed

text \<open>With the defaults the license comes from \<^verbatim>\<open>FS_LICENSE\<close>, as claimed. With
  \<^verbatim>\<open>--fs-license-file /missing/license.txt\<close> and an existing file in \<^verbatim>\<open>FS_LICENSE\<close>, and with
  \<^verbatim>\<open>FS_LICENSE\<close> set to the empty string and an existing file at the default path, the claim
  selects the existing file; the code raises the license error.\<close>

theorem license_resolution_witness:
  "fs_license_file default_opts = None \<and>
   environ host ''FS_LICENSE'' = Some ''/lic/license.txt'' \<and>
   resolve_license host default_opts = ''/lic/license.txt'' \<and>
   path_exists host (resolve_license host default_opts) \<and>
   take 2 (snd (main host default_opts))
     = [SetEnviron ''FS_LICENSE'' ''/lic/license.txt'', StartProcess] \<and>
   spec_resolve_license host default_opts = Some ''/lic/license.txt'' \<and>
   fs_license_file explicit_license_opts = Some ''/missing/license.txt'' \<and>
   resolve_license host explicit_license_opts = ''/missing/license.txt'' \<and>
   path_exists host ''/lic/license.txt'' \<and>
   spec_resolve_license host explicit_license_opts = Some ''/lic/license.txt'' \<and>
   main host explicit_license_opts = (Raised (RuntimeError license_msg), []) \<and>
   environ host_empty_variable ''FS_LICENSE'' = Some [] \<and>
   resolve_license host_empty_variable default_opts = [] \<and>
   path_exists host_empty_variable ''/opt/freesurfer/license.txt'' \<and>
   spec_resolve_license host_empty_variable default_opts = Some ''/opt/freesurfer/license.txt'' \<and>
   main host_empty_variable default_opts = (Raised (RuntimeError license_msg), [])"
proof -
  have a: "fs_license_file default_opts = None"
    "environ host ''FS_LICENSE'' = Some ''/lic/license.txt''"
    "fs_license_file explicit_license_opts = Some ''/missing/license.txt''"
    "environ host_empty_variable ''FS_LICENSE'' = Some []"
    by (simp_all add: sample_defs host_empty_variable_def)
  have b: "path_exists host ''/lic/license.txt''"
    "\<not> path_exists host ''/missing/license.txt''"
    "path_exists host_empty_variable ''/opt/freesurfer/license.txt''"
    "\<not> path_exists host_empty_variable []"
    by (simp_all add: sample_defs host_empty_variable_def)
  have s: "spec_resolve_license host explicit_license_opts = Some ''/lic/license.txt''"
    "spec_resolve_license host_empty_variable default_opts = Some ''/opt/freesurfer/license.txt''"
    by (simp_all add: sample_defs host_empty_variable_def spec_resolve_license_def
        spec_license_candidates_def getenv_def path_join_def)
  note one = license_resolution [of default_opts "''/lic/license.txt''" host "''/lic/license.txt''"]
  note two = license_resolution [of explicit_license_opts "''/missing/license.txt''" host
      "''/lic/license.txt''"]
  note three = license_resolution [of default_opts "''/lic/license.txt''" host_empty_variable "[]"]
  have r: "resolve_license host default_opts = ''/lic/license.txt''"
    using one a by blast
  have r1: "take 2 (snd (main host default_opts))
     = [SetEnviron ''FS_LICENSE'' ''/lic/license.txt'', StartProcess]"
    "spec_resolve_license host default_opts = Some ''/lic/license.txt''"
    using one b(1) by (simp_all add: r)
  have r2: "resolve_license host explicit_license_opts = ''/missing/license.txt''"
    using two a by simp
  have m2: "main host explicit_license_opts = (Raised (RuntimeError license_msg), [])"
    using two b(2) by (simp add: r2)
  have r3: "resolve_license host_empty_variable default_opts = []"
    using three a by blast
  have m3: "main host_empty_variable default_opts = (Raised (RuntimeError license_msg), [])"
    using three b(4) by (simp add: r3)
  from a b r r1 r2 m2 r3 m3 s show ?thesis by simp
qed

subsection \<open>The AROMA check\<close>

text \<open>
  C6. Whenever AROMA is requested and the template is not \<^verbatim>\<open>MNI152NLin2009cAsym\<close> or
  \<^verbatim>\<open>template\<close> is missing from the output spaces, the worker raises the \<^verbatim>\<open>RuntimeError\<close> of
  line 310 before it does anything else: it has no event, so no directory is made, and the
  dictionary is untouched. Seen from \<^verbatim>\<open>main\<close>, the run ends with an exception (the missing
  key, or the license error raised before the worker started), and no directory is made.
\<close>

theorem aroma_check_first:
  assumes "use_aroma opts"
    and "template opts \<noteq> ''MNI152NLin2009cAsym'' \<or> ''template'' \<notin> set (output_space opts)"
  shows "build_workflow w opts rv
           = (Inl (RuntimeError (aroma_msg (template opts) (output_space opts))), rv, []) \<and>
         main w opts
           = (if path_exists w (resolve_license w opts)
              then (Raised (KeyError ''workflow''), supervisor_prefix w opts)
              else (Raised (RuntimeError license_msg), [])) \<and>
         \<not> list_ex is_MakeDirs (snd (main w opts)) \<and>
         exit_status (fst (main w opts)) = 1"
proof -
  have chk: "check_inputs opts
      = Inl (RuntimeError (aroma_msg (template opts) (output_space opts)))"
    using assms by (simp add: check_inputs_def)
  note b = build_workflow_check_fails [OF chk]
  have none: "rv_workflow (worker_retval w opts) = None" "worker_events w opts = []"
    by (simp_all add: worker_retval_def worker_events_def b empty_retval_def)
  have m: "main w opts
           = (if path_exists w (resolve_license w opts)
              then (Raised (KeyError ''workflow''), supervisor_prefix w opts)
              else (Raised (RuntimeError license_msg), []))"
    using main_no_result [OF _ none(1)] main_license_fails [of w opts]
    by (simp add: none(2))
  show ?thesis
    by (simp add: b m supervisor_prefix_def)
qed

theorem aroma_check_first_witness:
  "use_aroma aroma_opts \<and> ''template'' \<notin> set (output_space aroma_opts) \<and>
   build_workflow host aroma_opts empty_retval
     = (Inl (RuntimeError (aroma_msg ''MNI152NLin2009cAsym'' [''T1w''])), empty_retval, []) \<and>
   main host aroma_opts
     = (Raised (KeyError ''workflow''),
        [SetEnviron ''FS_LICENSE'' ''/lic/license.txt'', StartProcess])"
proof -
  have a: "use_aroma aroma_opts" "''template'' \<notin> set (output_space aroma_opts)"
    "template aroma_opts = ''MNI152NLin2009cAsym''" "output_space aroma_opts = [''T1w'']"
    by (simp_all add: sample_defs)
  have lic: "path_exists host (resolve_license host aroma_opts)"
    "resolve_license host aroma_opts = ''/lic/license.txt''"
    by (simp_all add: sample_defs path_defs)
  from aroma_check_first [OF a(1) disjI2 [OF a(2)], of host empty_retval] a lic
  show ?thesis by (simp add: supervisor_prefix_def)
qed

subsection \<open>Execution and the report phase\<close>

text \<open>
  C5, as amended. In a full run whose graph was built (and rendered, if that was asked
  for): when the engine raises an instance of \<^verbatim>\<open>RuntimeError\<close> (the class or one that inherits
  from it) whose message contains \<^verbatim>\<open>Workflow did not execute cleanly\<close>, the phase status is 1,
  the report aggregation still runs (it is the last thing \<^verbatim>\<open>main\<close> does, and it runs once),
  its count is added, and the exit code is 1 when the sum exceeds zero and 0 otherwise; any
  other failure of the engine (an instance of \<^verbatim>\<open>RuntimeError\<close> with another message, or an
  exception that is no instance of \<^verbatim>\<open>RuntimeError\<close>, whatever its message) leaves \<^verbatim>\<open>main\<close> at
  once: the engine call is the last event and the report aggregation never runs.
\<close>

theorem execution_failure_classes:
  assumes "path_exists w (resolve_license w opts)" and "worker_setup w opts warns sl ps"
    and "\<not> reports_only opts" and "init_fmriprep_wf w (worker_args w opts sl) = Inr g"
    and "write_graph opts \<longrightarrow> wf_write_graph w g = None"
  shows
    "(wf_run w g ps = Some e \<and> is_RuntimeError e \<and>
      str_in ''Workflow did not execute cleanly'' (str_exn e) \<longrightarrow>
        fst (main w opts)
          = Exit (if 1 + generate_reports w sl (resolved_output_dir w opts)
                           (resolved_work_dir w opts) (fresh_run_uuid w) > 0
                  then 1 else 0) \<and>
        filter is_GenerateReports (snd (main w opts))
          = [GenerateReports sl (resolved_output_dir w opts) (resolved_work_dir w opts)
               (fresh_run_uuid w)] \<and>
        last (snd (main w opts))
          = GenerateReports sl (resolved_output_dir w opts) (resolved_work_dir w opts)
              (fresh_run_uuid w)) \<and>
     (wf_run w g ps = Some e \<and>
      \<not> (is_RuntimeError e \<and> str_in ''Workflow did not execute cleanly'' (str_exn e)) \<longrightarrow>
        fst (main w opts) = Raised e \<and>
        \<not> list_ex is_GenerateReports (snd (main w opts)) \<and>
        last (snd (main w opts)) = RunWorkflow g ps)"
proof -
  note m = main_graph [OF assms]
  have partial: "fst (main w opts)
          = Exit (if 1 + generate_reports w sl (resolved_output_dir w opts)
                           (resolved_work_dir w opts) (fresh_run_uuid w) > 0
                  then 1 else 0) \<and>
        filter is_GenerateReports (snd (main w opts))
          = [GenerateReports sl (resolved_output_dir w opts) (resolved_work_dir w opts)
               (fresh_run_uuid w)] \<and>
        last (snd (main w opts))
          = GenerateReports sl (resolved_output_dir w opts) (resolved_work_dir w opts)
              (fresh_run_uuid w)"
    if "wf_run w g ps = Some e" "is_RuntimeError e"
      "str_in ''Workflow did not execute cleanly'' (str_exn e)"
    by (simp add: m execute_partial [OF that] setup_events_filter supervisor_prefix_def)
  have fatal: "fst (main w opts) = Raised e \<and>
        \<not> list_ex is_GenerateReports (snd (main w opts)) \<and>
        last (snd (main w opts)) = RunWorkflow g ps"
    if "wf_run w g ps = Some e"
      "\<not> (is_RuntimeError e \<and> str_in ''Workflow did not execute cleanly'' (str_exn e))"
    using setup_events_kinds(1) [of w opts warns]
    by (simp add: m execute_fatal [OF that] supervisor_prefix_def)
  from partial fatal show ?thesis by blast
qed

theorem execution_failure_classes_witness:
  "wf_run host_partial 7 (multiproc_dict 4 None)
     = Some (RuntimeError ''Workflow did not execute cleanly. Check log for details'') \<and>
   str_in ''Workflow did not execute cleanly''
     ''Workflow did not execute cleanly. Check log for details'' \<and>
   generate_reports host_partial [''01''] ''/out'' ''/cwd/work'' ''20180101-120000_c0ffee'' = 2 \<and>
   fst (main host_partial default_opts) = Exit 1 \<and>
   last (snd (main host_partial default_opts))
     = GenerateReports [''01''] ''/out'' ''/cwd/work'' ''20180101-120000_c0ffee'' \<and>
   wf_run host_subclass 7 (multiproc_dict 4 None)
     = Some (OtherError [''NotImplementedError'', ''RuntimeError'', ''Exception'', ''BaseException'']
         ''Workflow did not execute cleanly. Check log for details'') \<and>
   fst (main host_subclass default_opts) = Exit 1 \<and>
   last (snd (main host_subclass default_opts))
     = GenerateReports [''01''] ''/out'' ''/cwd/work'' ''20180101-120000_c0ffee''"
proof -
  have ws': "path_exists host_subclass (resolve_license host_subclass default_opts)"
    "worker_setup host_subclass default_opts [] [''01''] (multiproc_dict 4 None)"
    "\<not> reports_only default_opts"
    "init_fmriprep_wf host_subclass (worker_args host_subclass default_opts [''01'']) = Inr 7"
    "write_graph default_opts \<longrightarrow> wf_write_graph host_subclass 7 = None"
    by (simp_all add: sample_defs host_subclass_def path_defs setup_defs)
  have run': "wf_run host_subclass 7 (multiproc_dict 4 None)
     = Some (OtherError [''NotImplementedError'', ''RuntimeError'', ''Exception'', ''BaseException'']
         ''Workflow did not execute cleanly. Check log for details'')"
    by (simp add: sample_defs host_subclass_def)
  have cls': "is_RuntimeError
     (OtherError [''NotImplementedError'', ''RuntimeError'', ''Exception'', ''BaseException'']
        ''Workflow did not execute cleanly. Check log for details'')"
    "str_in ''Workflow did not execute cleanly''
       (str_exn (OtherError
          [''NotImplementedError'', ''RuntimeError'', ''Exception'', ''BaseException'']
          ''Workflow did not execute cleanly. Check log for details''))"
    by simp_all
  have dirs': "resolved_output_dir host_subclass default_opts = ''/out''"
    "resolved_work_dir host_subclass default_opts = ''/cwd/work''"
    "fresh_run_uuid host_subclass = ''20180101-120000_c0ffee''"
    "generate_reports host_subclass [''01''] ''/out'' ''/cwd/work''
       ''20180101-120000_c0ffee'' = 0"
    by (simp_all add: sample_defs host_subclass_def path_defs)
  have sub: "fst (main host_subclass default_opts) = Exit 1"
    "last (snd (main host_subclass default_opts))
     = GenerateReports [''01''] ''/out'' ''/cwd/work'' ''20180101-120000_c0ffee''"
    using execution_failure_classes [OF ws',
        of "OtherError [''NotImplementedError'', ''RuntimeError'', ''Exception'', ''BaseException'']
          ''Workflow did not execute cleanly. Check log for details''"] run' cls'
    by (simp_all add: dirs')
  have ws: "path_exists host_partial (resolve_license host_partial default_opts)"
    "worker_setup host_partial default_opts [] [''01''] (multiproc_dict 4 None)"
    "\<not> reports_only default_opts"
    "init_fmriprep_wf host_partial (worker_args host_partial default_opts [''01'']) = Inr 7"
    "write_graph default_opts \<longrightarrow> wf_write_graph host_partial 7 = None"
    by (simp_all add: sample_defs path_defs setup_defs)
  have run: "wf_run host_partial 7 (multiproc_dict 4 None)
     = Some (RuntimeError ''Workflow did not execute cleanly. Check log for details'')"
    by (simp add: sample_defs)
  have msg: "str_in ''Workflow did not execute cleanly''
     ''Workflow did not execute cleanly. Check log for details''"
    by simp
  have dirs: "resolved_output_dir host_partial default_opts = ''/out''"
    "resolved_work_dir host_partial default_opts = ''/cwd/work''"
    "fresh_run_uuid host_partial = ''20180101-120000_c0ffee''"
    by (simp_all add: sample_defs path_defs)
  have rep: "generate_reports host_partial [''01''] ''/out'' ''/cwd/work''
      ''20180101-120000_c0ffee'' = 2"
    by (simp add: sample_defs)
  from execution_failure_classes [OF ws,
      of "RuntimeError ''Workflow did not execute cleanly. Check log for details''"]
    run msg rep run' sub
  show ?thesis by (simp add: dirs)
qed

text \<open>The claim as stated (any failure whose message contains the phrase is recoverable)
  fails for a failure that is no instance of \<^verbatim>\<open>RuntimeError\<close>, here a \<^verbatim>\<open>ValueError\<close>:
  \<^verbatim>\<open>except RuntimeError\<close> does not catch it, so it propagates and no report is aggregated.\<close>

theorem other_class_counterexample:
  "wf_run host_other_class 7 (multiproc_dict 4 None)
     = Some (OtherError [''ValueError'', ''Exception'', ''BaseException''] ''Workflow did not execute cleanly. Check log for details'') \<and>
   str_in ''Workflow did not execute cleanly''
     (str_exn (OtherError [''ValueError'', ''Exception'', ''BaseException'']
        ''Workflow did not execute cleanly. Check log for details'')) \<and>
   fst (main host_other_class default_opts)
     = Raised (OtherError [''ValueError'', ''Exception'', ''BaseException'']
         ''Workflow did not execute cleanly. Check log for details'') \<and>
   filter is_GenerateReports (snd (main host_other_class default_opts)) = []"
proof -
  have ws: "path_exists host_other_class (resolve_license host_other_class default_opts)"
    "worker_setup host_other_class default_opts [] [''01''] (multiproc_dict 4 None)"
    "\<not> reports_only default_opts"
    "init_fmriprep_wf host_other_class (worker_args host_other_class default_opts [''01'']) = Inr 7"
    "write_graph default_opts \<longrightarrow> wf_write_graph host_other_class 7 = None"
    by (simp_all add: sample_defs path_defs setup_defs)
  have run: "wf_run host_other_class 7 (multiproc_dict 4 None)
     = Some (OtherError [''ValueError'', ''Exception'', ''BaseException''] ''Workflow did not execute cleanly. Check log for details'')"
    by (simp add: sample_defs)
  have msg: "str_in ''Workflow did not execute cleanly''
     (str_exn (OtherError [''ValueError'', ''Exception'', ''BaseException'']
        ''Workflow did not execute cleanly. Check log for details''))"
    by simp
  have cls: "\<not> (is_RuntimeError (OtherError [''ValueError'', ''Exception'', ''BaseException'']
        ''Workflow did not execute cleanly. Check log for details'') \<and>
      str_in ''Workflow did not execute cleanly''
        (str_exn (OtherError [''ValueError'', ''Exception'', ''BaseException'']
           ''Workflow did not execute cleanly. Check log for details'')))"
    by simp
  have wg: "\<not> write_graph default_opts"
    by (simp add: sample_defs)
  from main_graph [OF ws] execute_fatal [OF run cls] run msg wg
  show ?thesis
    by (simp add: setup_events_filter supervisor_prefix_def)
qed

subsection \<open>Rendering the graph\<close>

text \<open>
  C8, as amended. The call of line 259 stands outside any handler. In a run that built a
  graph and was asked to render it: when the rendering raises, the exception leaves \<^verbatim>\<open>main\<close>,
  the rendering call is the last event, and neither execution nor reporting runs; when the
  rendering returns, \<^verbatim>\<open>main\<close> goes on to execute the graph (once) and ends as the execution
  and report phase ends.
\<close>

theorem write_graph_failure_fatal:
  assumes "path_exists w (resolve_license w opts)" and "worker_setup w opts warns sl ps"
    and "\<not> reports_only opts" and "init_fmriprep_wf w (worker_args w opts sl) = Inr g"
    and "write_graph opts"
  shows
    "(wf_write_graph w g = Some e \<longrightarrow>
        fst (main w opts) = Raised e \<and>
        last (snd (main w opts)) = WriteGraph g \<and>
        \<not> list_ex is_RunWorkflow (snd (main w opts)) \<and>
        \<not> list_ex is_GenerateReports (snd (main w opts))) \<and>
     (wf_write_graph w g = None \<longrightarrow>
        fst (main w opts)
          = fst (execute w g ps sl (resolved_output_dir w opts) (resolved_work_dir w opts)
                   (fresh_run_uuid w)) \<and>
        filter is_WriteGraph (snd (main w opts)) = [WriteGraph g] \<and>
        filter is_RunWorkflow (snd (main w opts)) = [RunWorkflow g ps])"
proof -
  have fatal: "fst (main w opts) = Raised e \<and>
        last (snd (main w opts)) = WriteGraph g \<and>
        \<not> list_ex is_RunWorkflow (snd (main w opts)) \<and>
        \<not> list_ex is_GenerateReports (snd (main w opts))"
    if "wf_write_graph w g = Some e"
    using assms(3-5) that setup_events_kinds(1,3) [of w opts warns]
    by (simp add: main_setup [OF assms(1,2)] supervisor_prefix_def)
  have proceeds: "fst (main w opts)
          = fst (execute w g ps sl (resolved_output_dir w opts) (resolved_work_dir w opts)
                   (fresh_run_uuid w)) \<and>
        filter is_WriteGraph (snd (main w opts)) = [WriteGraph g] \<and>
        filter is_RunWorkflow (snd (main w opts)) = [RunWorkflow g ps]"
    if "wf_write_graph w g = None"
  proof -
    have "write_graph opts \<longrightarrow> wf_write_graph w g = None"
      using that by simp
    from main_graph [OF assms(1-4) this] assms(5) show ?thesis
      by (simp add: setup_events_filter execute_runs_once supervisor_prefix_def
          execute_def Let_def split: option.splits)
  qed
  from fatal proceeds show ?thesis by blast
qed

theorem write_graph_failure_fatal_witness:
  "write_graph write_graph_opts \<and>
   wf_write_graph host_no_renderer 7 = Some (OtherError [''OSError'', ''Exception'', ''BaseException''] ''dot: command not found'') \<and>
   fst (main host_no_renderer write_graph_opts)
     = Raised (OtherError [''OSError'', ''Exception'', ''BaseException''] ''dot: command not found'') \<and>
   last (snd (main host_no_renderer write_graph_opts)) = WriteGraph 7 \<and>
   wf_write_graph host 7 = None \<and>
   fst (main host write_graph_opts) = Exit 0 \<and>
   filter is_RunWorkflow (snd (main host write_graph_opts))
     = [RunWorkflow 7 (multiproc_dict 4 None)]"
proof -
  have ws: "path_exists host_no_renderer (resolve_license host_no_renderer write_graph_opts)"
    "worker_setup host_no_renderer write_graph_opts [] [''01''] (multiproc_dict 4 None)"
    "\<not> reports_only write_graph_opts"
    "init_fmriprep_wf host_no_renderer (worker_args host_no_renderer write_graph_opts [''01''])
       = Inr 7"
    "write_graph write_graph_opts"
    by (simp_all add: sample_defs path_defs setup_defs)
  have ws2: "path_exists host (resolve_license host write_graph_opts)"
    "worker_setup host write_graph_opts [] [''01''] (multiproc_dict 4 None)"
    "\<not> reports_only write_graph_opts"
    "init_fmriprep_wf host (worker_args host write_graph_opts [''01'']) = Inr 7"
    "write_graph write_graph_opts"
    by (simp_all add: sample_defs path_defs setup_defs)
  have r: "wf_write_graph host_no_renderer 7
      = Some (OtherError [''OSError'', ''Exception'', ''BaseException''] ''dot: command not found'')"
    "wf_write_graph host 7 = None"
    by (simp_all add: sample_defs)
  have ex: "fst (execute host 7 (multiproc_dict 4 None) [''01'']
      (resolved_output_dir host write_graph_opts) (resolved_work_dir host write_graph_opts)
      (fresh_run_uuid host)) = Exit 0"
    by (simp add: execute_def sample_defs)
  from write_graph_failure_fatal [OF ws, of "OtherError [''OSError'', ''Exception'', ''BaseException''] ''dot: command not found''"]
    write_graph_failure_fatal [OF ws2, of "OtherError [''OSError'', ''Exception'', ''BaseException''] ''dot: command not found''"]
    r ex ws(5)
  show ?thesis by simp
qed

text \<open>The claim as stated (a failed rendering is not fatal) fails on a host without the
  renderer: the \<^verbatim>\<open>OSError\<close> of the rendering is the outcome of \<^verbatim>\<open>main\<close>, which neither
  executes the graph nor aggregates reports.\<close>

theorem write_graph_failure_counterexample:
  "write_graph write_graph_opts \<and>
   wf_write_graph host_no_renderer 7 = Some (OtherError [''OSError'', ''Exception'', ''BaseException''] ''dot: command not found'') \<and>
   fst (main host_no_renderer write_graph_opts)
     = Raised (OtherError [''OSError'', ''Exception'', ''BaseException''] ''dot: command not found'') \<and>
   filter is_RunWorkflow (snd (main host_no_renderer write_graph_opts)) = [] \<and>
   filter is_GenerateReports (snd (main host_no_renderer write_graph_opts)) = []"
proof -
  have ws: "path_exists host_no_renderer (resolve_license host_no_renderer write_graph_opts)"
    "worker_setup host_no_renderer write_graph_opts [] [''01''] (multiproc_dict 4 None)"
    by (simp_all add: sample_defs path_defs setup_defs)
  have f: "\<not> reports_only write_graph_opts"
    "init_fmriprep_wf host_no_renderer (worker_args host_no_renderer write_graph_opts [''01''])
       = Inr 7"
    "write_graph write_graph_opts"
    "wf_write_graph host_no_renderer 7
      = Some (OtherError [''OSError'', ''Exception'', ''BaseException''] ''dot: command not found'')"
    by (simp_all add: sample_defs)
  from main_setup [OF ws] f show ?thesis
    by (simp add: setup_events_filter supervisor_prefix_def)
qed

subsection \<open>The stop-on-first-crash policy\<close>

text \<open>
  C9. In the configuration the worker gives the engine (\<^verbatim>\<open>ncfg.update_config\<close>, lines
  374--390), the entry \<^verbatim>\<open>stop_on_first_crash\<close> under \<^verbatim>\<open>execution\<close> is the truth value of
  "the flag \<^verbatim>\<open>--stop-on-first-crash\<close> is set or no working directory was given": true
  exactly then, false otherwise. No other configuration is ever given: every update the
  worker makes carries this configuration, and a worker whose set-up succeeds makes exactly
  one.
\<close>

theorem stop_on_first_crash_policy:
  "Option.bind (yaml_get (nipype_config opts d) ''execution'')
     (\<lambda>x. yaml_get x ''stop_on_first_crash'')
     = Some (YBool (stop_on_first_crash opts \<or> work_dir opts = None)) \<and>
   (UpdateConfig c \<in> set (worker_events w opts) \<longrightarrow>
      c = nipype_config opts (resolved_log_dir w opts)) \<and>
   (worker_setup w opts warns sl ps \<longrightarrow>
      filter is_UpdateConfig (worker_events w opts)
        = [UpdateConfig (nipype_config opts (resolved_log_dir w opts))])"
proof -
  have once: "filter is_UpdateConfig (worker_events w opts)
        = [UpdateConfig (nipype_config opts (resolved_log_dir w opts))]"
    if "worker_setup w opts warns sl ps"
    using build_workflow_setup [OF that, of empty_retval]
    by (simp add: worker_events_def setup_events_def split: sum.splits)
  show ?thesis
    using once worker_update_config [of c w opts]
    by (simp add: nipype_config_def)
qed

theorem stop_on_first_crash_policy_witness:
  "worker_setup host default_opts [] [''01''] (multiproc_dict 4 None) \<and>
   work_dir default_opts = None \<and> \<not> stop_on_first_crash default_opts \<and>
   filter is_UpdateConfig (worker_events host default_opts)
     = [UpdateConfig (nipype_config default_opts ''/out/fmriprep/logs'')] \<and>
   UpdateConfig (nipype_config default_opts ''/out/fmriprep/logs'')
     \<in> set (worker_events host default_opts) \<and>
   Option.bind (yaml_get (nipype_config default_opts ''/out/fmriprep/logs'') ''execution'')
     (\<lambda>x. yaml_get x ''stop_on_first_crash'') = Some (YBool True) \<and>
   Option.bind
     (yaml_get (nipype_config (default_opts\<lparr>work_dir := Some ''/scratch''\<rparr>) ''/out/fmriprep/logs'')
        ''execution'')
     (\<lambda>x. yaml_get x ''stop_on_first_crash'') = Some (YBool False) \<and>
   Option.bind
     (yaml_get (nipype_config (default_opts\<lparr>work_dir := Some ''/scratch'',
                                  stop_on_first_crash := True\<rparr>) ''/out/fmriprep/logs'')
        ''execution'')
     (\<lambda>x. yaml_get x ''stop_on_first_crash'') = Some (YBool True)"
proof -
  have ws: "worker_setup host default_opts [] [''01''] (multiproc_dict 4 None)"
    by (simp add: sample_defs setup_defs)
  have o: "work_dir default_opts = None" "\<not> stop_on_first_crash default_opts"
    "work_dir (default_opts\<lparr>work_dir := Some ''/scratch''\<rparr>) = Some ''/scratch''"
    "\<not> stop_on_first_crash (default_opts\<lparr>work_dir := Some ''/scratch''\<rparr>)"
    "stop_on_first_crash (default_opts\<lparr>work_dir := Some ''/scratch'',
                                  stop_on_first_crash := True\<rparr>)"
    by (simp_all add: sample_defs)
  have d: "resolved_log_dir host default_opts = ''/out/fmriprep/logs''"
    by (simp add: sample_defs path_defs)
  note one = stop_on_first_crash_policy [of default_opts "''/out/fmriprep/logs''"
      "nipype_config default_opts ''/out/fmriprep/logs''" host "[]" "[''01'']"
      "multiproc_dict 4 None"]
  note two = stop_on_first_crash_policy [of "default_opts\<lparr>work_dir := Some ''/scratch''\<rparr>"
      "''/out/fmriprep/logs''" "YNull" host "[]" "[''01'']" "multiproc_dict 4 None"]
  note three = stop_on_first_crash_policy [of "default_opts\<lparr>work_dir := Some ''/scratch'',
                                  stop_on_first_crash := True\<rparr>"
      "''/out/fmriprep/logs''" "YNull" host "[]" "[''01'']" "multiproc_dict 4 None"]
  have f: "filter is_UpdateConfig (worker_events host default_opts)
     = [UpdateConfig (nipype_config default_opts ''/out/fmriprep/logs'')]"
    using one ws d by simp
  have "UpdateConfig (nipype_config default_opts ''/out/fmriprep/logs'')
     \<in> set (filter is_UpdateConfig (worker_events host default_opts))"
    by (simp add: f)
  then have m: "UpdateConfig (nipype_config default_opts ''/out/fmriprep/logs'')
     \<in> set (worker_events host default_opts)"
    by simp
  have b1: "Option.bind (yaml_get (nipype_config default_opts ''/out/fmriprep/logs'') ''execution'')
     (\<lambda>x. yaml_get x ''stop_on_first_crash'') = Some (YBool True)"
    using one [THEN conjunct1] by (simp add: o)
  have b2: "Option.bind
     (yaml_get (nipype_config (default_opts\<lparr>work_dir := Some ''/scratch''\<rparr>) ''/out/fmriprep/logs'')
        ''execution'')
     (\<lambda>x. yaml_get x ''stop_on_first_crash'') = Some (YBool False)"
    using two [THEN conjunct1] by (simp add: o)
  have b3: "Option.bind
     (yaml_get (nipype_config (default_opts\<lparr>work_dir := Some ''/scratch'',
                                  stop_on_first_crash := True\<rparr>) ''/out/fmriprep/logs'')
        ''execution'')
     (\<lambda>x. yaml_get x ''stop_on_first_crash'') = Some (YBool True)"
    using three [THEN conjunct1] by (simp add: o)
  from ws o(1,2) f m b1 b2 b3 show ?thesis by blast
qed

subsection \<open>The run identifier in reports-only mode\<close>

text \<open>
  C10. In reports-only mode with a prior run identifier \<open>u\<close>, a worker whose set-up succeeds
  returns; the identifier in its result is the fresh token (time stamp, underscore, UUID),
  written at line 400 before line 407 rebinds the local variable; the prior identifier goes
  to the one call of the report aggregator inside the worker, whose count becomes the
  status; no graph is built; and \<^verbatim>\<open>main\<close> adds no event of its own after the worker's, so it
  uses neither identifier.
\<close>

theorem reports_only_run_identifier:
  assumes "reports_only opts" and "run_uuid opts = Some u"
    and "worker_setup w opts warns sl ps"
  shows "fst (build_workflow w opts empty_retval) = Inr () \<and>
     rv_run_uuid (worker_retval w opts) = Some (strftime_now w @ ''_'' @ uuid4 w) \<and>
     rv_workflow (worker_retval w opts) = Some None \<and>
     filter is_GenerateReports (worker_events w opts)
       = [GenerateReports sl (resolved_output_dir w opts) (resolved_work_dir w opts) u] \<and>
     rv_return_code (worker_retval w opts)
       = Some (generate_reports w sl (resolved_output_dir w opts) (resolved_work_dir w opts) u) \<and>
     \<not> list_ex is_InitWorkflow (worker_events w opts) \<and>
     (path_exists w (resolve_license w opts) \<longrightarrow>
        snd (main w opts) = supervisor_prefix w opts @ worker_events w opts)"
proof -
  have u: "report_uuid w opts = u"
    using assms(2) by (simp add: report_uuid_def)
  note b = build_workflow_setup [OF assms(3), of empty_retval]
  have worker: "fst (build_workflow w opts empty_retval) = Inr ()"
    "rv_run_uuid (worker_retval w opts) = Some (strftime_now w @ ''_'' @ uuid4 w)"
    "rv_workflow (worker_retval w opts) = Some None"
    "filter is_GenerateReports (worker_events w opts)
       = [GenerateReports sl (resolved_output_dir w opts) (resolved_work_dir w opts) u]"
    "rv_return_code (worker_retval w opts)
       = Some (generate_reports w sl (resolved_output_dir w opts) (resolved_work_dir w opts) u)"
    using assms(1)
    by (simp_all add: b u worker_retval_def worker_events_def publish_def fresh_run_uuid_def
        setup_events_filter)
  have quiet: "\<not> list_ex is_InitWorkflow (worker_events w opts)"
    using worker_reports_only(2) [OF assms(1)] .
  have sup: "snd (main w opts) = supervisor_prefix w opts @ worker_events w opts"
    if "path_exists w (resolve_license w opts)"
    using main_absent_graph [OF that worker(3)] by simp
  from worker quiet sup show ?thesis by blast
qed

theorem reports_only_run_identifier_witness:
  "reports_only reports_only_opts \<and>
   run_uuid reports_only_opts = Some ''20171231-235959_prior'' \<and>
   worker_setup host reports_only_opts [] [''01''] (multiproc_dict 4 None) \<and>
   rv_run_uuid (worker_retval host reports_only_opts) = Some ''20180101-120000_c0ffee'' \<and>
   filter is_GenerateReports (worker_events host reports_only_opts)
     = [GenerateReports [''01''] ''/out'' ''/cwd/work'' ''20171231-235959_prior'']"
proof -
  have a: "reports_only reports_only_opts"
    "run_uuid reports_only_opts = Some ''20171231-235959_prior''"
    "worker_setup host reports_only_opts [] [''01''] (multiproc_dict 4 None)"
    by (simp_all add: sample_defs setup_defs)
  have d: "resolved_output_dir host reports_only_opts = ''/out''"
    "resolved_work_dir host reports_only_opts = ''/cwd/work''"
    "strftime_now host = ''20180101-120000''" "uuid4 host = ''c0ffee''"
    by (simp_all add: sample_defs path_defs)
  from reports_only_run_identifier [OF a] a show ?thesis
    by (simp add: d)
qed

subsection \<open>The plugin override\<close>

text \<open>
  C7, as amended. With \<^verbatim>\<open>--use-plugin\<close> and a document that loads, in a full run whose set-up
  succeeds, the plugin settings are the document itself: the worker publishes it unchanged
  and it is what the engine is run with; and for every setting of the three knobs under
  which the computed settings exist at all (they are computed before the document is read),
  the settings still resolve to the document, with nothing of the computed ones in it. The
  graph builder, however, is still called with a per-task thread count that comes from the
  knobs: for a request of zero or more it is the count of section 4.2, the request itself
  when it is at least 1 and otherwise the one derived from the requested total and the cores.
\<close>

theorem plugin_override:
  assumes "use_plugin opts = Some f" and "load_plugin w f = Inr doc"
    and "worker_setup w opts warns sl ps" and "\<not> reports_only opts"
  shows "ps = doc \<and>
     (multiproc_settings (plan_nthreads (cpu_count w) T) M = Inr computed \<longrightarrow>
        resolve_plugin_settings w (opts\<lparr>nthreads := T, omp_nthreads := O', mem_mb := M\<rparr>)
          = Inr doc) \<and>
     rv_plugin_settings (worker_retval w opts) = Some doc \<and>
     filter is_InitWorkflow (worker_events w opts) = [InitWorkflow (worker_args w opts sl)] \<and>
     (0 \<le> omp_nthreads opts \<longrightarrow>
        wf_omp_nthreads (worker_args w opts sl)
          = spec_per_task (spec_total (nthreads opts) (cpu_count w)) (omp_nthreads opts)
              (cpu_count w)) \<and>
     (path_exists w (resolve_license w opts) \<and>
      init_fmriprep_wf w (worker_args w opts sl) = Inr g \<and>
      (write_graph opts \<longrightarrow> wf_write_graph w g = None) \<longrightarrow>
        filter is_RunWorkflow (snd (main w opts)) = [RunWorkflow g doc])"
proof -
  have ps: "ps = doc"
    using assms(1-3)
    by (auto simp: worker_setup_def resolve_plugin_settings_def split: sum.splits)
  have knobs: "resolve_plugin_settings w (opts\<lparr>nthreads := T, omp_nthreads := O', mem_mb := M\<rparr>)
      = Inr doc"
    if "multiproc_settings (plan_nthreads (cpu_count w) T) M = Inr computed"
    using assms(1,2) that by (simp add: resolve_plugin_settings_def)
  have worker: "rv_plugin_settings (worker_retval w opts) = Some doc"
    "filter is_InitWorkflow (worker_events w opts) = [InitWorkflow (worker_args w opts sl)]"
    using assms(4) build_workflow_setup [OF assms(3), of empty_retval]
    by (simp_all add: worker_retval_def worker_events_def publish_def ps setup_events_filter
        split: sum.splits)
  have omp: "wf_omp_nthreads (worker_args w opts sl)
          = spec_per_task (spec_total (nthreads opts) (cpu_count w)) (omp_nthreads opts)
              (cpu_count w)"
    if "0 \<le> omp_nthreads opts"
    using that
    by (auto simp: worker_args_def init_args_def worker_omp_nthreads_def worker_nthreads_def
        plan_nthreads_def plan_omp_nthreads_def spec_per_task_def spec_total_def)
  have run: "filter is_RunWorkflow (snd (main w opts)) = [RunWorkflow g doc]"
    if "path_exists w (resolve_license w opts)"
      "init_fmriprep_wf w (worker_args w opts sl) = Inr g"
      "write_graph opts \<longrightarrow> wf_write_graph w g = None"
    using main_graph [OF that(1) assms(3,4) that(2,3)]
    by (simp add: ps setup_events_filter execute_runs_once supervisor_prefix_def)
  from ps knobs worker omp run show ?thesis by blast
qed

theorem plugin_override_witness:
  "use_plugin plugin_opts = Some ''/plugin.yml'' \<and>
   load_plugin host ''/plugin.yml'' = Inr (YDict [(''plugin'', YStr ''Linear'')]) \<and>
   worker_setup host plugin_opts [] [''01''] (YDict [(''plugin'', YStr ''Linear'')]) \<and>
   rv_plugin_settings (worker_retval host plugin_opts)
     = Some (YDict [(''plugin'', YStr ''Linear'')]) \<and>
   multiproc_settings (plan_nthreads (cpu_count host) 6) 512
     = Inr (multiproc_dict 6 (Some (1 / 2))) \<and>
   resolve_plugin_settings host (plugin_opts\<lparr>nthreads := 6, omp_nthreads := 2, mem_mb := 512\<rparr>)
     = Inr (YDict [(''plugin'', YStr ''Linear'')]) \<and>
   (0::int) \<le> omp_nthreads plugin_opts \<and>
   wf_omp_nthreads (worker_args host plugin_opts [''01'']) = 3 \<and>
   filter is_RunWorkflow (snd (main host plugin_opts))
     = [RunWorkflow 7 (YDict [(''plugin'', YStr ''Linear'')])]"
proof -
  have mp: "multiproc_settings 4 2048 = Inr (multiproc_dict 4 (Some 2))"
    by (simp add: multiproc_settings_exact)
  have mp': "multiproc_settings (plan_nthreads (cpu_count host) 6) 512
     = Inr (multiproc_dict 6 (Some (1 / 2)))"
    by (simp add: multiproc_settings_exact plan_nthreads_def)
  have a: "use_plugin plugin_opts = Some ''/plugin.yml''"
    "load_plugin host ''/plugin.yml'' = Inr (YDict [(''plugin'', YStr ''Linear'')])"
    "worker_setup host plugin_opts [] [''01''] (YDict [(''plugin'', YStr ''Linear'')])"
    "\<not> reports_only plugin_opts"
    by (simp_all add: sample_defs worker_setup_def check_inputs_def resolve_plugin_settings_def
        plan_nthreads_def mp)
  have b: "path_exists host (resolve_license host plugin_opts)"
    "init_fmriprep_wf host (worker_args host plugin_opts [''01'']) = Inr 7"
    "write_graph plugin_opts \<longrightarrow> wf_write_graph host 7 = None"
    by (simp_all add: sample_defs path_defs)
  have k: "cpu_count host = 4" "nthreads plugin_opts = 0" "omp_nthreads plugin_opts = 0"
    by (simp_all add: sample_defs)
  have sp: "spec_per_task (spec_total 0 4) 0 4 = 3"
    by (simp add: spec_per_task_def spec_total_def)
  from plugin_override [OF a, of 6 512 "multiproc_dict 6 (Some (1 / 2))" 2 7] a b mp'
  show ?thesis by (simp add: k sp)
qed

text \<open>The claim as stated (no knob influences what is handed to graph construction) fails:
  with the same plugin file, \<^verbatim>\<open>--nthreads 2\<close> gives the graph builder one thread per task and
  \<^verbatim>\<open>--nthreads 6\<close> gives it five; \<^verbatim>\<open>--omp-nthreads 2\<close> gives it two.\<close>

theorem plugin_knobs_counterexample:
  "use_plugin (plugin_opts\<lparr>nthreads := 2\<rparr>) = Some ''/plugin.yml'' \<and>
   use_plugin (plugin_opts\<lparr>nthreads := 6\<rparr>) = Some ''/plugin.yml'' \<and>
   last (worker_events host (plugin_opts\<lparr>nthreads := 2\<rparr>))
     = InitWorkflow (worker_args host (plugin_opts\<lparr>nthreads := 2\<rparr>) [''01'']) \<and>
   wf_omp_nthreads (worker_args host (plugin_opts\<lparr>nthreads := 2\<rparr>) [''01'']) = 1 \<and>
   last (worker_events host (plugin_opts\<lparr>nthreads := 6\<rparr>))
     = InitWorkflow (worker_args host (plugin_opts\<lparr>nthreads := 6\<rparr>) [''01'']) \<and>
   wf_omp_nthreads (worker_args host (plugin_opts\<lparr>nthreads := 6\<rparr>) [''01'']) = 5 \<and>
   wf_omp_nthreads (worker_args host (plugin_opts\<lparr>omp_nthreads := 2\<rparr>) [''01'']) = 2"
proof -
  have u: "use_plugin (plugin_opts\<lparr>nthreads := 2\<rparr>) = Some ''/plugin.yml''"
    "use_plugin (plugin_opts\<lparr>nthreads := 6\<rparr>) = Some ''/plugin.yml''"
    by (simp_all add: sample_defs)
  have mp: "multiproc_settings 2 2048 = Inr (multiproc_dict 2 (Some 2))"
    "multiproc_settings 6 2048 = Inr (multiproc_dict 6 (Some 2))"
    by (simp_all add: multiproc_settings_exact)
  have ws: "worker_setup host (plugin_opts\<lparr>nthreads := 2\<rparr>) [] [''01'']
      (YDict [(''plugin'', YStr ''Linear'')])"
    "worker_setup host (plugin_opts\<lparr>nthreads := 6\<rparr>) [] [''01'']
      (YDict [(''plugin'', YStr ''Linear'')])"
    by (simp_all add: sample_defs worker_setup_def check_inputs_def resolve_plugin_settings_def
        plan_nthreads_def mp)
  have ro: "\<not> reports_only (plugin_opts\<lparr>nthreads := 2\<rparr>)"
    "\<not> reports_only (plugin_opts\<lparr>nthreads := 6\<rparr>)"
    by (simp_all add: sample_defs)
  have i: "init_fmriprep_wf host (worker_args host (plugin_opts\<lparr>nthreads := 2\<rparr>) [''01'']) = Inr 7"
    "init_fmriprep_wf host (worker_args host (plugin_opts\<lparr>nthreads := 6\<rparr>) [''01'']) = Inr 7"
    by (simp_all add: host_def)
  have l: "last (worker_events host (plugin_opts\<lparr>nthreads := 2\<rparr>))
     = InitWorkflow (worker_args host (plugin_opts\<lparr>nthreads := 2\<rparr>) [''01''])"
    "last (worker_events host (plugin_opts\<lparr>nthreads := 6\<rparr>))
     = InitWorkflow (worker_args host (plugin_opts\<lparr>nthreads := 6\<rparr>) [''01''])"
    using ro i
    by (simp_all add: worker_events_def build_workflow_setup [OF ws(1)]
        build_workflow_setup [OF ws(2)])
  have o: "wf_omp_nthreads (worker_args host (plugin_opts\<lparr>nthreads := 2\<rparr>) [''01'']) = 1"
    "wf_omp_nthreads (worker_args host (plugin_opts\<lparr>nthreads := 6\<rparr>) [''01'']) = 5"
    "wf_omp_nthreads (worker_args host (plugin_opts\<lparr>omp_nthreads := 2\<rparr>) [''01'']) = 2"
    by (simp_all add: worker_args_def init_args_def worker_omp_nthreads_def worker_nthreads_def
        plan_nthreads_def plan_omp_nthreads_def sample_defs)
  from u l o show ?thesis by simp
qed

text \<open>A memory request too large for a float ends the worker before the plugin file is
  read: the options of \<open>huge_memory_opts\<close> name a plugin file and ask for \<open>2 ^ 1034\<close>
  megabytes.\<close>

lemma worker_memory_overflow_sample:
  "build_workflow host huge_memory_opts empty_retval = (Inl overflow_error, empty_retval, [])"
proof -
  have m: "mem_mb huge_memory_opts = 2 ^ 1034"
    by (simp add: huge_memory_opts_def)
  have c: "check_inputs huge_memory_opts = Inr []"
    by (simp add: huge_memory_opts_def default_opts_def check_inputs_def)
  have p: "collect_participants host (abspath host (bids_dir huge_memory_opts))
      (participant_label huge_memory_opts) = Inr [''01'']"
    by (simp add: host_def)
  from build_workflow_memory_overflows [OF _ m c p, of empty_retval]
  show ?thesis by simp
qed

end
